theory Spec2Isabelle
  imports Main "HOL-Library.Sublist"
begin

section \<open>Strings, exceptions and time\<close>

text \<open>
  Python strings are modelled as \<open>string\<close>. The few characters of the source outside
  ASCII (pictographs that open log lines, accented letters of the Portuguese messages) are
  written as their UTF-8 bytes.
\<close>

definition U_cycle :: string where
  "U_cycle = [CHR 0xF0, CHR 0x9F, CHR 0x94, CHR 0x84]"

definition U_cross :: string where
  "U_cross = [CHR 0xE2, CHR 0x9D, CHR 0x8C]"

definition U_check :: string where
  "U_check = [CHR 0xE2, CHR 0x9C, CHR 0x85]"

definition U_bin :: string where
  "U_bin = [CHR 0xF0, CHR 0x9F, CHR 0x97, CHR 0x91, CHR 0xEF, CHR 0xB8, CHR 0x8F]"

definition U_outbox :: string where
  "U_outbox = [CHR 0xF0, CHR 0x9F, CHR 0x93, CHR 0xA4]"

definition U_envelope :: string where
  "U_envelope = [CHR 0xE2, CHR 0x9C, CHR 0x89, CHR 0xEF, CHR 0xB8, CHR 0x8F]"

definition U_warning :: string where
  "U_warning = [CHR 0xE2, CHR 0x9A, CHR 0xA0, CHR 0xEF, CHR 0xB8, CHR 0x8F]"

definition a_tilde :: string where
  "a_tilde = [CHR 0xC3, CHR 0xA3]"

definition a_grave :: string where
  "a_grave = [CHR 0xC3, CHR 0xA0]"

definition c_cedil :: string where
  "c_cedil = [CHR 0xC3, CHR 0xA7]"

definition o_tilde :: string where
  "o_tilde = [CHR 0xC3, CHR 0xB5]"

definition i_acute :: string where
  "i_acute = [CHR 0xC3, CHR 0xAD]"

definition a_acute :: string where
  "a_acute = [CHR 0xC3, CHR 0xA1]"

definition o_acute :: string where
  "o_acute = [CHR 0xC3, CHR 0xB3]"

text \<open>Decimal digits; \<open>dec\<close> is \<open>str(n)\<close> (and \<open>%d\<close>) for a natural number.\<close>

definition digit :: "nat \<Rightarrow> char" where
  "digit n = ''0123456789'' ! (n mod 10)"

fun dec :: "nat \<Rightarrow> string" where
  "dec n = (if n < 10 then [digit n] else dec (n div 10) @ [digit n])"

declare dec.simps [simp del]

definition pad2 :: "nat \<Rightarrow> string" where
  "pad2 n = (if n < 10 then CHR ''0'' # dec n else dec n)"

definition pad4 :: "nat \<Rightarrow> string" where
  "pad4 n = replicate (4 - length (dec n)) CHR ''0'' @ dec n"

definition pad6 :: "nat \<Rightarrow> string" where
  "pad6 n = replicate (6 - length (dec n)) CHR ''0'' @ dec n"

text \<open>
  An \<open>Optional[str]\<close> is a \<open>string option\<close>. \<open>truthy\<close> is Python's truth value of it
  (\<open>None\<close> and the empty string are false); \<open>fmt\<close> is what an f-string prints for it.
\<close>

fun truthy :: "string option \<Rightarrow> bool" where
  "truthy None = False"
| "truthy (Some s) = (s \<noteq> [])"

fun fmt :: "string option \<Rightarrow> string" where
  "fmt None = ''None''"
| "fmt (Some s) = s"

text \<open>
  The exceptions the program raises or receives from its libraries. A
  \<open>CalledProcessError\<close> carries the command and the return code, as
  \<open>subprocess.run(..., check=True)\<close> builds it; the exceptions that come out of the
  storage client, the mail transport and the file system carry their message.
\<close>

datatype exn =
    ValueError string
  | CalledProcessError string nat
  | FileNotFoundError string
  | ClientError "string option" string
  | NoCredentialsError
  | OSError string
  | OtherException string

text \<open>
  \<open>exn_str e\<close> is \<open>str(e)\<close>, what \<open>f"{e}"\<close> prints. For \<open>CalledProcessError\<close> it is
  the text of the standard library, which quotes the whole command; the return code is an
  exit status, and the other sentence the library prints for a process killed by a signal
  (it quotes the command too) is left out. A \<open>ClientError\<close> carries the error code of
  its response, when the response has one, and its message.
\<close>

fun exn_str :: "exn \<Rightarrow> string" where
  "exn_str (ValueError m) = m"
| "exn_str (CalledProcessError cmd rc) =
     ''Command '' @ [CHR 0x27] @ cmd @ [CHR 0x27] @ '' returned non-zero exit status '' @ dec rc @ ''.''"
| "exn_str (FileNotFoundError m) = m"
| "exn_str (ClientError code m) = m"
| "exn_str NoCredentialsError = ''Unable to locate credentials''"
| "exn_str (OSError m) = m"
| "exn_str (OtherException m) = m"

fun is_CalledProcessError :: "exn \<Rightarrow> bool" where
  "is_CalledProcessError (CalledProcessError cmd rc) = True"
| "is_CalledProcessError e = False"

text \<open>A timezone-aware \<open>datetime\<close>: civil fields and the offset from UTC in minutes.\<close>

record datetime =
  year :: nat
  month :: nat
  day :: nat
  hour :: nat
  minute :: nat
  second :: nat
  microsecond :: nat
  utcoffset :: int

text \<open>
  The three \<open>strftime\<close> formats of the source. \<open>%Y\<close> prints the year in decimal (the C
  library does not pad it); \<open>%m %d %H %M %S\<close> print two digits.
\<close>

definition strftime_Ymd :: "datetime \<Rightarrow> string" where
  "strftime_Ymd t = dec (year t) @ pad2 (month t) @ pad2 (day t)"

definition strftime_Ymd_HMS :: "datetime \<Rightarrow> string" where
  "strftime_Ymd_HMS t =
     dec (year t) @ pad2 (month t) @ pad2 (day t) @ ''_'' @
     pad2 (hour t) @ pad2 (minute t) @ pad2 (second t)"

definition strftime_br :: "datetime \<Rightarrow> string" where
  "strftime_br t =
     pad2 (day t) @ ''/'' @ pad2 (month t) @ ''/'' @ dec (year t) @ '' '' @ a_grave @ ''s '' @
     pad2 (hour t) @ '':'' @ pad2 (minute t) @ '':'' @ pad2 (second t)"

definition isoformat :: "datetime \<Rightarrow> string" where
  "isoformat t =
     pad4 (year t) @ ''-'' @ pad2 (month t) @ ''-'' @ pad2 (day t) @ ''T'' @
     pad2 (hour t) @ '':'' @ pad2 (minute t) @ '':'' @ pad2 (second t) @
     (if microsecond t = 0 then [] else ''.'' @ pad6 (microsecond t)) @
     (if utcoffset t < 0 then ''-'' else ''+'') @
     pad2 (nat \<bar>utcoffset t\<bar> div 60) @ '':'' @ pad2 (nat \<bar>utcoffset t\<bar> mod 60)"

section \<open>The world outside the program\<close>

text \<open>
  What a run can observe and change: the files that exist, the process environment, a
  clock (the number of readings taken so far), and the trace of everything the program
  did that is visible from outside, in order.
\<close>

datatype level = INFO | WARNING | ERROR

text \<open>The keyword arguments of \<open>boto3.client("s3", ...)\<close>.\<close>

record client_kwargs =
  kw_endpoint_url :: "string option"
  kw_access_key_id :: string
  kw_secret_access_key :: string
  kw_region_name :: string

datatype event =
    Log level string
  | Spawn string "string \<rightharpoonup> string"
  | UploadFileCall string string
  | ClientCreated client_kwargs
  | NetPut string string string "(string \<times> string) list option"
  | EmailCall string string
  | SmtpSent string string
  | Removed string

record world =
  files :: "string set"
  environ :: "string \<rightharpoonup> string"
  clock :: nat
  trace :: "event list"

definition emit :: "event \<Rightarrow> world \<Rightarrow> world" where
  "emit e w = w\<lparr>trace := trace w @ [e]\<rparr>"

definition log_info :: "string \<Rightarrow> world \<Rightarrow> world" where
  "log_info m w = emit (Log INFO m) w"

definition log_error :: "string \<Rightarrow> world \<Rightarrow> world" where
  "log_error m w = emit (Log ERROR m) w"

text \<open>
  How the outside answers. \<open>run_proc cmd env fs\<close> is the exit status of the shell
  command started with environment \<open>env\<close> on files \<open>fs\<close>, and the files afterwards;
  \<open>boto3_client\<close> and \<open>s3_upload\<close> say whether building the client and the transfer
  raise; \<open>smtp\<close> whether sending the mail raises; \<open>os_remove\<close> whether deleting a path
  raises; \<open>tz_known\<close> is the timezone database and \<open>local_now z n\<close> the \<open>n\<close>-th reading
  of the clock in zone \<open>z\<close>.
\<close>

record ext =
  run_proc :: "string \<Rightarrow> (string \<rightharpoonup> string) \<Rightarrow> string set \<Rightarrow> nat \<times> string set"
  boto3_client :: "client_kwargs \<Rightarrow> exn option"
  s3_upload ::
    "client_kwargs \<Rightarrow> string \<Rightarrow> string \<Rightarrow> string \<Rightarrow> (string \<times> string) list option \<Rightarrow> exn option"
  smtp :: "string \<Rightarrow> string \<Rightarrow> exn option"
  os_remove :: "string \<Rightarrow> exn option"
  tz_known :: "string \<Rightarrow> bool"
  local_now :: "string \<Rightarrow> nat \<Rightarrow> datetime"

definition getenv :: "world \<Rightarrow> string \<Rightarrow> string option" where
  "getenv w k = environ w k"

definition getenv_default :: "world \<Rightarrow> string \<Rightarrow> string \<Rightarrow> string" where
  "getenv_default w k dflt = (case environ w k of None \<Rightarrow> dflt | Some v \<Rightarrow> v)"

text \<open>\<open>datetime.now(tz)\<close>: one reading of the clock.\<close>

definition datetime_now :: "ext \<Rightarrow> string \<Rightarrow> world \<Rightarrow> datetime \<times> world" where
  "datetime_now x z w = (local_now x z (clock w), w\<lparr>clock := Suc (clock w)\<rparr>)"

text \<open>\<open>subprocess.run(command, shell=True, check=True)\<close>.\<close>

definition subprocess_run :: "ext \<Rightarrow> string \<Rightarrow> world \<Rightarrow> exn option \<times> world" where
  "subprocess_run x command w =
     (let w1 = emit (Spawn command (environ w)) w;
          (rc, fs) = run_proc x command (environ w1) (files w1);
          w2 = w1\<lparr>files := fs\<rparr>
      in if rc \<noteq> 0 then (Some (CalledProcessError command rc), w2) else (None, w2))"

section \<open>db_dumper.py\<close>

datatype dumper_class = PostgresDumper | MySQLDumper | MSSQLDumper

record dumper =
  cls :: dumper_class
  host :: string
  port :: string
  user :: string
  password :: string
  database :: string
  db_type :: string

text \<open>\<open>DatabaseDumper.__init__\<close>, reached through the constructor of each subclass.\<close>

definition DatabaseDumper_init ::
  "dumper_class \<Rightarrow> string option \<Rightarrow> string option \<Rightarrow> string option \<Rightarrow> string option \<Rightarrow>
   string option \<Rightarrow> string \<Rightarrow> exn + dumper" where
  "DatabaseDumper_init c h p u pw db ty =
     (if \<not> (truthy h \<and> truthy p \<and> truthy u \<and> truthy pw \<and> truthy db) then
        Inl (ValueError
          (''Configura'' @ c_cedil @ o_tilde @ ''es de base de dados incompletas. '' @
           ''Verifique DB_HOST, DB_PORT, DB_USER, DB_PASSWORD e DB_DATABASE.''))
      else Inr \<lparr>cls = c, host = fmt h, port = fmt p, user = fmt u, password = fmt pw,
                database = fmt db, db_type = ty\<rparr>)"

definition PostgresDumper_init ::
  "string option \<Rightarrow> string option \<Rightarrow> string option \<Rightarrow> string option \<Rightarrow> string option \<Rightarrow>
   exn + dumper" where
  "PostgresDumper_init h p u pw db = DatabaseDumper_init PostgresDumper h p u pw db ''postgres''"

definition MySQLDumper_init ::
  "string option \<Rightarrow> string option \<Rightarrow> string option \<Rightarrow> string option \<Rightarrow> string option \<Rightarrow>
   string \<Rightarrow> exn + dumper" where
  "MySQLDumper_init h p u pw db ty = DatabaseDumper_init MySQLDumper h p u pw db ty"

definition MSSQLDumper_init ::
  "string option \<Rightarrow> string option \<Rightarrow> string option \<Rightarrow> string option \<Rightarrow> string option \<Rightarrow>
   exn + dumper" where
  "MSSQLDumper_init h p u pw db = DatabaseDumper_init MSSQLDumper h p u pw db ''mssql''"

definition get_metadata :: "dumper \<Rightarrow> (string \<times> string) list" where
  "get_metadata d =
     [(''uploaded-by'', ''bsource-db-backup''),
      (''database'', database d),
      (''backup-type'', db_type d)]"

fun get_file_extension :: "dumper_class \<Rightarrow> string" where
  "get_file_extension PostgresDumper = ''.sql''"
| "get_file_extension MySQLDumper = ''.sql''"
| "get_file_extension MSSQLDumper = ''.bak''"

text \<open>The command each \<open>dump\<close> runs, and the line it logs before running it.\<close>

fun dump_command :: "dumper_class \<Rightarrow> dumper \<Rightarrow> string \<Rightarrow> string" where
  "dump_command PostgresDumper d output_path =
     ''pg_dump -h '' @ host d @ '' -p '' @ port d @ '' -U '' @ user d @ '' '' @
     ''-F c -b -v -f '' @ output_path @ '' '' @ database d"
| "dump_command MySQLDumper d output_path =
     ''mysqldump --host='' @ host d @ '' --port='' @ port d @ '' '' @
     ''--user='' @ user d @ '' --password='' @ password d @ '' '' @
     ''--single-transaction --routines --triggers '' @
     ''--databases '' @ database d @ '' '' @
     ''--result-file='' @ output_path"
| "dump_command MSSQLDumper d output_path =
     ''sqlcmd -S '' @ host d @ '','' @ port d @ '' '' @
     ''-U '' @ user d @ '' -P '' @ password d @ '' '' @
     ''-Q \"'' @
       (''BACKUP DATABASE ['' @ database d @ ''] '' @
        ''TO DISK = N'' @ [CHR 0x27] @ output_path @ [CHR 0x27] @ '' '' @
        ''WITH FORMAT, INIT, COMPRESSION, '' @
        ''NAME = N'' @ [CHR 0x27] @ database d @ ''-backup'' @ [CHR 0x27]) @
     ''\" -C''"

fun dump_log :: "dumper_class \<Rightarrow> dumper \<Rightarrow> string \<Rightarrow> string" where
  "dump_log PostgresDumper d output_path =
     ''Executando: '' @ dump_command PostgresDumper d output_path"
| "dump_log MySQLDumper d output_path =
     ''Executando: mysqldump --host='' @ host d @ '' --port='' @ port d @ '' '' @
     ''--user='' @ user d @ '' --password=****** '' @
     ''--single-transaction --routines --triggers '' @
     ''--databases '' @ database d @ '' --result-file='' @ output_path"
| "dump_log MSSQLDumper d output_path =
     ''Executando: sqlcmd -S '' @ host d @ '','' @ port d @ '' '' @
     ''-U '' @ user d @ '' -P ****** -Q \"BACKUP DATABASE ...\" -C''"

text \<open>
  \<open>dump\<close>: the Postgres variant first stores the password in the environment of the
  process; every variant logs, runs the command and returns the output path, or raises
  what \<open>subprocess.run\<close> raised.
\<close>

definition dump :: "ext \<Rightarrow> dumper \<Rightarrow> string \<Rightarrow> world \<Rightarrow> (exn + string) \<times> world" where
  "dump x d output_path w =
     (let w1 = (if cls d = PostgresDumper
                then w\<lparr>environ := (environ w)(''PGPASSWORD'' \<mapsto> password d)\<rparr> else w);
          w2 = log_info (dump_log (cls d) d output_path) w1;
          (r, w3) = subprocess_run x (dump_command (cls d) d output_path) w2
      in case r of Some e \<Rightarrow> (Inl e, w3) | None \<Rightarrow> (Inr output_path, w3))"

text \<open>
  The factory. \<open>norm\<close> stands for \<open>.lower().strip()\<close> of the standard library, applied to
  the value of \<open>DB_TYPE\<close>.
\<close>

definition DUMPER_MAP :: "(string \<times> dumper_class) list" where
  "DUMPER_MAP =
     [(''postgres'', PostgresDumper),
      (''mysql'', MySQLDumper),
      (''mariadb'', MySQLDumper),
      (''mssql'', MSSQLDumper)]"

definition SUPPORTED_DB_TYPES :: "string list" where
  "SUPPORTED_DB_TYPES = map fst DUMPER_MAP"

fun join :: "string \<Rightarrow> string list \<Rightarrow> string" where
  "join sep [] = []"
| "join sep [s] = s"
| "join sep (s # t # ss) = s @ sep @ join sep (t # ss)"

text \<open>Calling a class of the map with the five settings (\<open>MySQLDumper\<close> defaults its tag).\<close>

fun dumper_class_call ::
  "dumper_class \<Rightarrow> string option \<Rightarrow> string option \<Rightarrow> string option \<Rightarrow> string option \<Rightarrow>
   string option \<Rightarrow> exn + dumper" where
  "dumper_class_call PostgresDumper h p u pw db = PostgresDumper_init h p u pw db"
| "dumper_class_call MySQLDumper h p u pw db = MySQLDumper_init h p u pw db ''mysql''"
| "dumper_class_call MSSQLDumper h p u pw db = MSSQLDumper_init h p u pw db"

definition create_dumper_from_env :: "(string \<Rightarrow> string) \<Rightarrow> world \<Rightarrow> exn + dumper" where
  "create_dumper_from_env norm w =
     (let ty = norm (getenv_default w ''DB_TYPE'' '''') in
      case map_of DUMPER_MAP ty of
        None \<Rightarrow>
          Inl (ValueError
            (''DB_TYPE '' @ [CHR 0x27] @ ty @ [CHR 0x27] @ '' n'' @ a_tilde @ ''o suportado. '' @
             ''Valores aceitos: '' @ join '', '' SUPPORTED_DB_TYPES))
      | Some c \<Rightarrow>
          (let h = getenv w ''DB_HOST''; p = getenv w ''DB_PORT''; u = getenv w ''DB_USER'';
               pw = getenv w ''DB_PASSWORD''; db = getenv w ''DB_DATABASE''
           in if ty = ''mysql'' \<or> ty = ''mariadb'' then MySQLDumper_init h p u pw db ty
              else dumper_class_call c h p u pw db))"

section \<open>storage_provider.py\<close>

datatype provider = R2Storage | S3Storage

text \<open>
  A storage provider object. \<open>region\<close> is an attribute of the S3 variant only, and
  \<open>client_memo\<close> is the attribute \<open>_client\<close> of the lazily built client.
\<close>

record storage =
  kind :: provider
  endpoint_url :: "string option"
  region :: "string option"
  access_key_id :: string
  secret_access_key :: string
  bucket_name :: string
  destination_folder :: string
  client_memo :: "client_kwargs option"

definition StorageProvider_init ::
  "provider \<Rightarrow> string option \<Rightarrow> string option \<Rightarrow> string option \<Rightarrow> string option \<Rightarrow>
   string option \<Rightarrow> string option \<Rightarrow> exn + storage" where
  "StorageProvider_init k ep rg ak sk b df =
     (if \<not> (truthy ak \<and> truthy sk \<and> truthy b) then
        Inl (ValueError
          (''Configura'' @ c_cedil @ o_tilde @ ''es de storage incompletas. '' @
           ''Verifique STORAGE_ACCESS_KEY_ID, STORAGE_SECRET_ACCESS_KEY e STORAGE_BUCKET_NAME.''))
      else Inr \<lparr>kind = k, endpoint_url = ep, region = rg,
                access_key_id = fmt ak, secret_access_key = fmt sk, bucket_name = fmt b,
                destination_folder = (if truthy df then fmt df else ''backups/''),
                client_memo = None\<rparr>)"

definition R2Storage_init ::
  "string option \<Rightarrow> string option \<Rightarrow> string option \<Rightarrow> string option \<Rightarrow> string option \<Rightarrow>
   exn + storage" where
  "R2Storage_init ep ak sk b df =
     (if \<not> truthy ep then
        Inl (ValueError (''STORAGE_ENDPOINT_URL '' @ [CHR 0xC3, CHR 0xA9] @
                         '' obrigat'' @ o_acute @ ''rio para Cloudflare R2.''))
      else StorageProvider_init R2Storage ep None ak sk b df)"

definition S3Storage_init ::
  "string option \<Rightarrow> string option \<Rightarrow> string option \<Rightarrow> string option \<Rightarrow> string option \<Rightarrow>
   string option \<Rightarrow> exn + storage" where
  "S3Storage_init ak sk b rg ep df =
     (if \<not> truthy rg then
        Inl (ValueError (''STORAGE_REGION '' @ [CHR 0xC3, CHR 0xA9] @
                         '' obrigat'' @ o_acute @ ''rio para AWS S3 (ex: us-east-1).''))
      else StorageProvider_init S3Storage ep rg ak sk b df)"

text \<open>\<open>_create_client\<close> of the two variants: the arguments handed to \<open>boto3.client\<close>.\<close>

fun create_client :: "provider \<Rightarrow> storage \<Rightarrow> client_kwargs" where
  "create_client R2Storage s =
     \<lparr>kw_endpoint_url = endpoint_url s, kw_access_key_id = access_key_id s,
      kw_secret_access_key = secret_access_key s, kw_region_name = ''auto''\<rparr>"
| "create_client S3Storage s =
     \<lparr>kw_endpoint_url = (if truthy (endpoint_url s) then endpoint_url s else None),
      kw_access_key_id = access_key_id s,
      kw_secret_access_key = secret_access_key s, kw_region_name = fmt (region s)\<rparr>"

text \<open>The property \<open>client\<close>: built on first use, kept on the object afterwards.\<close>

definition client :: "ext \<Rightarrow> storage \<Rightarrow> world \<Rightarrow> (exn + client_kwargs) \<times> storage \<times> world" where
  "client x s w =
     (case client_memo s of
        Some c \<Rightarrow> (Inr c, s, w)
      | None \<Rightarrow>
          (let kw = create_client (kind s) s in
           case boto3_client x kw of
             Some e \<Rightarrow> (Inl e, s, w)
           | None \<Rightarrow> (Inr kw, s\<lparr>client_memo := Some kw\<rparr>, emit (ClientCreated kw) w)))"

text \<open>\<open>s.rstrip("/")\<close>.\<close>

definition rstrip_slash :: "string \<Rightarrow> string" where
  "rstrip_slash s = rev (dropWhile (\<lambda>c. c = CHR ''/'') (rev s))"

text \<open>
  The path policy of \<open>_build_destination_path\<close>, as a function of the folder, the local
  time and the file name; the method itself reads the zone from the environment and the
  time from the clock.
\<close>

definition base_folder :: "string \<Rightarrow> string" where
  "base_folder folder = (if folder \<noteq> [] then rstrip_slash folder @ ''/'' else [])"

definition destination_path :: "string \<Rightarrow> datetime \<Rightarrow> string \<Rightarrow> string" where
  "destination_path folder local_time filename =
     base_folder folder @ strftime_Ymd local_time @ ''/'' @ filename"

definition build_destination_path :: "ext \<Rightarrow> storage \<Rightarrow> string \<Rightarrow> world \<Rightarrow> string \<times> world" where
  "build_destination_path x s filename w =
     (let timezone_name = getenv_default w ''TIMEZONE'' ''America/Sao_Paulo'';
          timezone = (if tz_known x timezone_name then timezone_name else ''America/Sao_Paulo'');
          (local_time, w1) = datetime_now x timezone w
      in (destination_path (destination_folder s) local_time filename, w1))"

text \<open>The three \<open>except\<close> clauses of \<open>upload_file\<close>: each logs, then raises again.\<close>

fun upload_error_log :: "exn \<Rightarrow> string" where
  "upload_error_log (ClientError code m) =
     U_cross @ '' Erro do cliente storage: '' @ (case code of None \<Rightarrow> ''Unknown'' | Some c \<Rightarrow> c)"
| "upload_error_log NoCredentialsError =
     U_cross @ '' Credenciais de storage inv'' @ a_acute @ ''lidas ou ausentes''"
| "upload_error_log e = U_cross @ '' Erro inesperado no upload: '' @ exn_str e"

definition upload_file ::
  "ext \<Rightarrow> storage \<Rightarrow> string \<Rightarrow> string \<Rightarrow> (string \<times> string) list \<Rightarrow> world \<Rightarrow>
   (exn + string) \<times> storage \<times> world" where
  "upload_file x s local_filepath filename metadata w0 =
     (let w = emit (UploadFileCall local_filepath filename) w0 in
      if local_filepath \<notin> files w then
        (Inl (FileNotFoundError (''Arquivo n'' @ a_tilde @ ''o encontrado: '' @ local_filepath)), s, w)
      else
        (let (destination, w1) = build_destination_path x s filename w;
             extra_args = (if metadata \<noteq> [] then Some metadata else None);
             w2 = log_info (U_outbox @ '' Iniciando upload: '' @ destination) w1
         in case client x s w2 of
              (Inl e, s1, w3) \<Rightarrow> (Inl e, s1, log_error (upload_error_log e) w3)
            | (Inr c, s1, w3) \<Rightarrow>
                (let w4 = emit (NetPut local_filepath (bucket_name s) destination extra_args) w3 in
                 case s3_upload x c local_filepath (bucket_name s) destination extra_args of
                   Some e \<Rightarrow> (Inl e, s1, log_error (upload_error_log e) w4)
                 | None \<Rightarrow>
                     (Inr destination, s1,
                      log_info (U_check @ '' Upload conclu'' @ i_acute @ ''do com sucesso'') w4))))"

definition SUPPORTED_STORAGE_TYPES :: "string list" where
  "SUPPORTED_STORAGE_TYPES = [''r2'', ''s3'']"

definition create_storage_from_env :: "(string \<Rightarrow> string) \<Rightarrow> world \<Rightarrow> exn + storage" where
  "create_storage_from_env norm w =
     (let ty = norm (getenv_default w ''STORAGE_TYPE'' '''') in
      if ty \<notin> set SUPPORTED_STORAGE_TYPES then
        Inl (ValueError
          (''STORAGE_TYPE '' @ [CHR 0x27] @ ty @ [CHR 0x27] @ '' n'' @ a_tilde @ ''o suportado. '' @
           ''Valores aceitos: '' @ join '', '' SUPPORTED_STORAGE_TYPES))
      else
        (let ak = getenv w ''STORAGE_ACCESS_KEY_ID'';
             sk = getenv w ''STORAGE_SECRET_ACCESS_KEY'';
             b = getenv w ''STORAGE_BUCKET_NAME'';
             df = Some (getenv_default w ''STORAGE_DESTINATION_FOLDER'' ''backups/'');
             ep = getenv w ''STORAGE_ENDPOINT_URL'';
             rg = getenv w ''STORAGE_REGION''
         in if ty = ''r2'' then R2Storage_init ep ak sk b df
            else S3Storage_init ak sk b rg ep df))"

section \<open>email_helper.py\<close>

text \<open>
  \<open>enviar_email\<close>: whatever building and sending the message raises is logged and goes no
  further.
\<close>

definition enviar_email :: "ext \<Rightarrow> string \<Rightarrow> string \<Rightarrow> world \<Rightarrow> world" where
  "enviar_email x assunto corpo w =
     (let w1 = emit (EmailCall assunto corpo) w in
      case smtp x assunto corpo of
        None \<Rightarrow> log_info (U_envelope @ '' E-mail enviado com sucesso.'') (emit (SmtpSent assunto corpo) w1)
      | Some e \<Rightarrow> log_error (U_cross @ '' Falha ao enviar e-mail: '' @ exn_str e) w1)"

section \<open>main.py\<close>

text \<open>The module-level names that \<open>gerar_backup\<close> reads. A zone is known by its name.\<close>

record globals =
  dumper :: "dumper option"
  storage :: "storage option"
  DB_DATABASE :: "string option"
  DB_TYPE :: "string option"
  STORAGE_TYPE :: "string option"
  TIMEZONE_NAME :: string
  TIMEZONE :: string

definition module_init :: "(string \<Rightarrow> string) \<Rightarrow> ext \<Rightarrow> world \<Rightarrow> globals \<times> world" where
  "module_init norm x w =
     (let tzn = getenv_default w ''TIMEZONE'' ''America/Sao_Paulo'';
          (tz, w1) =
            (if tz_known x tzn then (tzn, w)
             else (''America/Sao_Paulo'',
                   emit (Log WARNING (U_warning @ '' Timezone '' @ [CHR 0x27] @ tzn @ [CHR 0x27] @
                     '' n'' @ a_tilde @ ''o reconhecido, usando '' @
                     [CHR 0x27] @ ''America/Sao_Paulo'' @ [CHR 0x27])) w));
          (d, dbn, dbt, w2) =
            (case create_dumper_from_env norm w1 of
               Inr d \<Rightarrow>
                 (let ty = norm (getenv_default w1 ''DB_TYPE'' '''') in
                  (Some d, getenv w1 ''DB_DATABASE'', Some ty,
                   log_info (U_check @ '' Dumper configurado: '' @ ty) w1))
             | Inl e \<Rightarrow>
                 (None, None, None,
                  log_error (U_cross @ '' Erro na configura'' @ c_cedil @ a_tilde @
                             ''o do banco de dados: '' @ exn_str e) w1));
          (s, st, w3) =
            (case create_storage_from_env norm w2 of
               Inr s \<Rightarrow>
                 (let ty = norm (getenv_default w2 ''STORAGE_TYPE'' '''') in
                  (Some s, Some ty, log_info (U_check @ '' Storage configurado: '' @ ty) w2))
             | Inl e \<Rightarrow>
                 (None, None,
                  log_error (U_cross @ '' Erro na configura'' @ c_cedil @ a_tilde @
                             ''o do storage: '' @ exn_str e) w2))
      in (\<lparr>dumper = d, storage = s, DB_DATABASE = dbn, DB_TYPE = dbt, STORAGE_TYPE = st,
           TIMEZONE_NAME = tzn, TIMEZONE = tz\<rparr>, w3))"

definition backup_filename :: "globals \<Rightarrow> dumper \<Rightarrow> datetime \<Rightarrow> string" where
  "backup_filename g d local_time =
     ''backup_'' @ fmt (DB_DATABASE g) @ ''_'' @ strftime_Ymd_HMS local_time @
     get_file_extension (cls d)"

definition backup_filepath :: "globals \<Rightarrow> dumper \<Rightarrow> datetime \<Rightarrow> string" where
  "backup_filepath g d local_time = ''/tmp/'' @ backup_filename g d local_time"

text \<open>\<open>metadata.update({...})\<close> on a dictionary kept as an association list.\<close>

fun dict_set :: "(string \<times> string) list \<Rightarrow> string \<Rightarrow> string \<Rightarrow> (string \<times> string) list" where
  "dict_set [] k v = [(k, v)]"
| "dict_set ((k', v') # m) k v = (if k' = k then (k, v) # m else (k', v') # dict_set m k v)"

definition upload_metadata :: "globals \<Rightarrow> dumper \<Rightarrow> datetime \<Rightarrow> (string \<times> string) list" where
  "upload_metadata g d local_time =
     dict_set (dict_set (get_metadata d) ''upload-timestamp'' (isoformat local_time))
       ''timezone'' (TIMEZONE_NAME g)"

text \<open>The three messages handed to \<open>enviar_email\<close>: subject and body.\<close>

definition email_success :: "globals \<Rightarrow> string \<Rightarrow> datetime \<Rightarrow> string \<times> string" where
  "email_success g filename local_time =
     (''Database Backup - SUCESSO'',
      ''Backup '' @ [CHR 0x27] @ filename @ [CHR 0x27] @ '' da base de dados '' @
      [CHR 0x27] @ fmt (DB_DATABASE g) @ [CHR 0x27] @ '' ('' @ fmt (DB_TYPE g) @ '') '' @
      ''realizado com sucesso em '' @ strftime_br local_time @
      '' ('' @ TIMEZONE_NAME g @ '')!'')"

definition email_dump_error :: "globals \<Rightarrow> datetime \<Rightarrow> exn \<Rightarrow> string \<times> string" where
  "email_dump_error g t e =
     (''Database Backup - ERRO'',
      ''Falha ao gerar o backup da base de dados '' @
      [CHR 0x27] @ fmt (DB_DATABASE g) @ [CHR 0x27] @ '' ('' @ fmt (DB_TYPE g) @ '') '' @
      ''em '' @ strftime_br t @ '' ('' @ TIMEZONE_NAME g @ '').'' @
      [CHR 0x0A, CHR 0x0A] @ ''Erro: '' @ exn_str e)"

definition email_upload_error :: "globals \<Rightarrow> datetime \<Rightarrow> exn \<Rightarrow> string \<times> string" where
  "email_upload_error g t e =
     (''Database Backup - ERRO'',
      ''Falha no upload do backup da base de dados '' @
      [CHR 0x27] @ fmt (DB_DATABASE g) @ [CHR 0x27] @ '' ('' @ fmt (DB_TYPE g) @ '') '' @
      ''em '' @ strftime_br t @ '' ('' @ TIMEZONE_NAME g @ '').'' @
      [CHR 0x0A, CHR 0x0A] @ ''Erro: '' @ exn_str e)"

text \<open>
  The body of the \<open>try\<close> statement of \<open>gerar_backup\<close>: the exception that leaves it, if
  any, the storage object and the world.
\<close>

definition backup_try ::
  "ext \<Rightarrow> globals \<Rightarrow> dumper \<Rightarrow> storage \<Rightarrow> datetime \<Rightarrow> world \<Rightarrow> exn option \<times> storage \<times> world" where
  "backup_try x g d s local_time w =
     (let filename = backup_filename g d local_time;
          filepath = backup_filepath g d local_time
      in case dump x d filepath w of
           (Inl e, w1) \<Rightarrow> (Some e, s, w1)
         | (Inr out, w1) \<Rightarrow>
             (let w2 = log_info (U_check @ '' Backup gerado: '' @ filepath) w1;
                  metadata = upload_metadata g d local_time
              in case upload_file x s filepath filename metadata w2 of
                   (Inl e, s1, w3) \<Rightarrow> (Some e, s1, w3)
                 | (Inr remote_path, s1, w3) \<Rightarrow>
                     (let w4 = log_info (U_check @ '' Backup enviado para '' @
                                 fmt (STORAGE_TYPE g) @ '': '' @ remote_path) w3;
                          m = email_success g filename local_time
                      in (None, s1, enviar_email x (fst m) (snd m) w4))))"

text \<open>The two \<open>except\<close> clauses: the first takes a \<open>CalledProcessError\<close>, the second the rest.\<close>

definition backup_except :: "ext \<Rightarrow> globals \<Rightarrow> exn \<Rightarrow> world \<Rightarrow> world" where
  "backup_except x g e w =
     (if is_CalledProcessError e then
        (let w1 = log_error (U_cross @ '' Erro ao gerar backup: '' @ exn_str e) w;
             (t, w2) = datetime_now x (TIMEZONE g) w1;
             m = email_dump_error g t e
         in enviar_email x (fst m) (snd m) w2)
      else
        (let w1 = log_error (U_cross @ '' Erro no upload para '' @ fmt (STORAGE_TYPE g) @
                             '': '' @ exn_str e) w;
             (t, w2) = datetime_now x (TIMEZONE g) w1;
             m = email_upload_error g t e
         in enviar_email x (fst m) (snd m) w2))"

text \<open>The \<open>finally\<close> clause: what \<open>os.remove\<close> raises leaves it.\<close>

definition backup_finally :: "ext \<Rightarrow> string \<Rightarrow> world \<Rightarrow> exn option \<times> world" where
  "backup_finally x filepath w =
     (if filepath \<in> files w then
        (case os_remove x filepath of
           Some e \<Rightarrow> (Some e, w)
         | None \<Rightarrow>
             (None, log_info (U_bin @ '' Arquivo de backup local removido.'')
                      (emit (Removed filepath) (w\<lparr>files := files w - {filepath}\<rparr>))))
      else (None, w))"

text \<open>
  \<open>gerar_backup\<close>: the exception that reaches the caller, if any, the module state (the
  storage object may now hold its client) and the world.
\<close>

definition gerar_backup :: "ext \<Rightarrow> globals \<Rightarrow> world \<Rightarrow> exn option \<times> globals \<times> world" where
  "gerar_backup x g w0 =
     (let w = log_info (U_cycle @ '' Iniciando backup...'') w0 in
      case dumper g of
        None \<Rightarrow> (None, g, log_error (U_cross @ '' Dumper n'' @ a_tilde @ ''o configurado. Backup cancelado.'') w)
      | Some d \<Rightarrow>
          (case storage g of
             None \<Rightarrow> (None, g, log_error (U_cross @ '' Storage n'' @ a_tilde @ ''o configurado. Backup cancelado.'') w)
           | Some s \<Rightarrow>
               (let (local_time, w1) = datetime_now x (TIMEZONE g) w;
                    (r, s1, w2) = backup_try x g d s local_time w1;
                    w3 = (case r of None \<Rightarrow> w2 | Some e \<Rightarrow> backup_except x g e w2);
                    (r', w4) = backup_finally x (backup_filepath g d local_time) w3
                in (r', g\<lparr>storage := Some s1\<rparr>, w4))))"

text \<open>Reading a result, and the events a run added to the trace.\<close>

definition raised :: "exn option \<times> globals \<times> world \<Rightarrow> exn option" where
  "raised r = fst r"

definition world_of :: "exn option \<times> globals \<times> world \<Rightarrow> world" where
  "world_of r = snd (snd r)"

definition new_events :: "world \<Rightarrow> world \<Rightarrow> event list" where
  "new_events w w' = drop (length (trace w)) (trace w')"

fun is_upload_event :: "event \<Rightarrow> bool" where
  "is_upload_event (UploadFileCall p f) = True"
| "is_upload_event (ClientCreated kw) = True"
| "is_upload_event (NetPut p b k m) = True"
| "is_upload_event e = False"

fun is_EmailCall :: "event \<Rightarrow> bool" where
  "is_EmailCall (EmailCall a c) = True"
| "is_EmailCall e = False"

text \<open>
  Names for the steps of one run of \<open>gerar_backup\<close> from world \<open>w\<close>: the local time it
  reads, the path of its temp file, the call of \<open>dump\<close> it makes, the call of
  \<open>upload_file\<close> it makes once \<open>dump\<close> has returned, and its \<open>try\<close> body.
\<close>

definition run_time :: "ext \<Rightarrow> globals \<Rightarrow> world \<Rightarrow> datetime" where
  "run_time x g w = local_now x (TIMEZONE g) (clock w)"

definition run_filepath :: "ext \<Rightarrow> globals \<Rightarrow> dumper \<Rightarrow> world \<Rightarrow> string" where
  "run_filepath x g d w = backup_filepath g d (run_time x g w)"

definition run_dump :: "ext \<Rightarrow> globals \<Rightarrow> dumper \<Rightarrow> world \<Rightarrow> (exn + string) \<times> world" where
  "run_dump x g d w =
     (let (local_time, w1) = datetime_now x (TIMEZONE g) (log_info (U_cycle @ '' Iniciando backup...'') w)
      in dump x d (backup_filepath g d local_time) w1)"

definition run_upload ::
  "ext \<Rightarrow> globals \<Rightarrow> dumper \<Rightarrow> storage \<Rightarrow> world \<Rightarrow> (exn + string) \<times> storage \<times> world" where
  "run_upload x g d s w =
     upload_file x s (run_filepath x g d w) (backup_filename g d (run_time x g w))
       (upload_metadata g d (run_time x g w))
       (log_info (U_check @ '' Backup gerado: '' @ run_filepath x g d w) (snd (run_dump x g d w)))"

definition run_try ::
  "ext \<Rightarrow> globals \<Rightarrow> dumper \<Rightarrow> storage \<Rightarrow> world \<Rightarrow> exn option \<times> storage \<times> world" where
  "run_try x g d s w =
     (let (local_time, w1) = datetime_now x (TIMEZONE g) (log_info (U_cycle @ '' Iniciando backup...'') w)
      in backup_try x g d s local_time w1)"


text \<open>
  \<open>quiet w w'\<close>: from \<open>w\<close> to \<open>w'\<close> no file changed and the trace grew by events that
  are not calls of the notifier.
\<close>

definition quiet :: "world \<Rightarrow> world \<Rightarrow> bool" where
  "quiet w w' \<longleftrightarrow> files w' = files w \<and>
     (\<exists>evs. trace w' = trace w @ evs \<and> filter is_EmailCall evs = [])"

fun is_error_log :: "event \<Rightarrow> bool" where
  "is_error_log (Log ERROR m) = True"
| "is_error_log e = False"

fun email_bodies :: "event list \<Rightarrow> string list" where
  "email_bodies [] = []"
| "email_bodies (EmailCall a c # es) = c # email_bodies es"
| "email_bodies (e # es) = email_bodies es"

section \<open>Concrete runs\<close>

text \<open>
  One configuration (a MySQL database \<open>shop\<close>, an R2 bucket), one instant, an empty
  world, and the behaviours of the outside: everything works; the dump tool exits with
  status 2; the bucket refuses the transfer; the mail transport fails; deleting the temp
  file is refused.
\<close>

definition t_0 :: datetime where
  "t_0 = \<lparr>year = 2024, month = 3, day = 9, hour = 2, minute = 30, second = 5,
          microsecond = 0, utcoffset = - 180\<rparr>"

definition tmp_0 :: string where
  "tmp_0 = ''/tmp/backup_shop_20240309_023005.sql''"

definition x_ok :: ext where
  "x_ok = \<lparr>run_proc = (\<lambda>cmd env fs. (0, insert tmp_0 fs)),
           boto3_client = (\<lambda>kw. None),
           s3_upload = (\<lambda>c p b k m. None),
           smtp = (\<lambda>a c. None),
           os_remove = (\<lambda>p. None),
           tz_known = (\<lambda>z. True),
           local_now = (\<lambda>z n. t_0)\<rparr>"

definition x_dump_fails :: ext where
  "x_dump_fails = x_ok\<lparr>run_proc := (\<lambda>cmd env fs. (2, fs))\<rparr>"

definition x_remove_fails :: ext where
  "x_remove_fails = x_ok\<lparr>os_remove := (\<lambda>p. Some (OSError ''[Errno 13] Permission denied''))\<rparr>"

definition x_upload_fails :: ext where
  "x_upload_fails =
     x_ok\<lparr>s3_upload := (\<lambda>c p b k m. Some (ClientError (Some ''AccessDenied'')
       ''An error occurred (AccessDenied) when calling the PutObject operation: Access Denied''))\<rparr>"

definition x_smtp_fails :: ext where
  "x_smtp_fails = x_ok\<lparr>smtp := (\<lambda>a c. Some (OtherException ''Connection refused''))\<rparr>"

definition d_mysql :: dumper where
  "d_mysql = \<lparr>cls = MySQLDumper, host = ''db'', port = ''3306'', user = ''root'',
              password = ''s3cr3t'', database = ''shop'', db_type = ''mysql''\<rparr>"

definition d_pg :: dumper where
  "d_pg = \<lparr>cls = PostgresDumper, host = ''db'', port = ''5432'', user = ''postgres'',
           password = ''s3cr3t'', database = ''shop'', db_type = ''postgres''\<rparr>"

definition s_r2 :: storage where
  "s_r2 = \<lparr>kind = R2Storage, endpoint_url = Some ''https://r2.example'', region = None,
           access_key_id = ''AK'', secret_access_key = ''SK'', bucket_name = ''bkt'',
           destination_folder = ''backups/'', client_memo = None\<rparr>"

definition g_0 :: globals where
  "g_0 = \<lparr>dumper = Some d_mysql, storage = Some s_r2, DB_DATABASE = Some ''shop'',
          DB_TYPE = Some ''mysql'', STORAGE_TYPE = Some ''r2'',
          TIMEZONE_NAME = ''America/Sao_Paulo'', TIMEZONE = ''America/Sao_Paulo''\<rparr>"

definition w_0 :: world where
  "w_0 = \<lparr>files = {}, environ = Map.empty, clock = 0, trace = []\<rparr>"

section \<open>Lemmas\<close>

subsection \<open>Decimal digits and separators\<close>









subsection \<open>The steps of a run\<close>

lemmas io_defs = log_info_def log_error_def emit_def datetime_now_def

lemma dump_result:
  "dump x d p w =
     (let env = (if cls d = PostgresDumper then (environ w)(''PGPASSWORD'' \<mapsto> password d) else environ w);
          cmd = dump_command (cls d) d p;
          out = run_proc x cmd env (files w)
      in (if fst out \<noteq> 0 then Inl (CalledProcessError cmd (fst out)) else Inr p,
          \<lparr>files = snd out, environ = env, clock = clock w,
           trace = trace w @ [Log INFO (dump_log (cls d) d p), Spawn cmd env]\<rparr>))"
  by (simp add: dump_def subprocess_run_def io_defs Let_def split_beta)

lemma dump_raises:
  "fst (dump x d p w) = Inl e \<Longrightarrow>
     \<exists>rc. e = CalledProcessError (dump_command (cls d) d p) rc"
  by (auto simp add: dump_result Let_def split: if_splits)

lemma dump_trace:
  "\<exists>env. trace (snd (dump x d p w)) =
     trace w @ [Log INFO (dump_log (cls d) d p), Spawn (dump_command (cls d) d p) env]"
  by (simp add: dump_result Let_def)

lemma quiet_refl [simp]: "quiet w w"
  by (simp add: quiet_def)

lemma quiet_emit: "\<not> is_EmailCall e \<Longrightarrow> quiet w w' \<Longrightarrow> quiet w (emit e w')"
  by (auto simp add: quiet_def emit_def)

lemma quiet_log_info [simp]: "quiet w w' \<Longrightarrow> quiet w (log_info m w')"
  by (simp add: log_info_def quiet_emit)

lemma quiet_log_error [simp]: "quiet w w' \<Longrightarrow> quiet w (log_error m w')"
  by (simp add: log_error_def quiet_emit)

lemma quiet_now [simp]: "quiet w w' \<Longrightarrow> quiet w (snd (datetime_now x z w'))"
  by (auto simp add: quiet_def datetime_now_def)

lemma quiet_client: "quiet w w' \<Longrightarrow> quiet w (snd (snd (client x s w')))"
  by (simp add: client_def Let_def quiet_emit split: option.splits)

lemma quiet_build: "quiet w w' \<Longrightarrow> quiet w (snd (build_destination_path x s f w'))"
  by (simp add: build_destination_path_def Let_def split_beta)

lemma quiet_upload_file: "quiet w w' \<Longrightarrow> quiet w (snd (snd (upload_file x s p f m w')))"
  by (simp add: upload_file_def Let_def split_beta quiet_emit quiet_client quiet_build
      split: sum.splits option.splits)

lemma quiet_files: "quiet w w' \<Longrightarrow> files w' = files w"
  by (simp add: quiet_def)

lemma quiet_emails: "quiet w w' \<Longrightarrow> filter is_EmailCall (trace w') = filter is_EmailCall (trace w)"
  by (auto simp add: quiet_def)

lemma quiet_prefix: "quiet w w' \<Longrightarrow> prefix (trace w) (trace w')"
  by (auto simp add: quiet_def)

lemma upload_file_files [simp]: "files (snd (snd (upload_file x s p f m w))) = files w"
  by (rule quiet_files) (simp add: quiet_upload_file)

lemma upload_file_emails [simp]:
  "filter is_EmailCall (trace (snd (snd (upload_file x s p f m w)))) = filter is_EmailCall (trace w)"
  by (rule quiet_emails) (simp add: quiet_upload_file)

lemma upload_file_prefix: "prefix (trace w) (trace (snd (snd (upload_file x s p f m w))))"
  by (rule quiet_prefix) (simp add: quiet_upload_file)

lemma enviar_email_files [simp]: "files (enviar_email x a c w) = files w"
  by (simp add: enviar_email_def io_defs Let_def split: option.splits)

lemma enviar_email_trace:
  "trace (enviar_email x a c w) = trace w @ EmailCall a c #
     (case smtp x a c of
        None \<Rightarrow> [SmtpSent a c, Log INFO (U_envelope @ '' E-mail enviado com sucesso.'')]
      | Some e \<Rightarrow> [Log ERROR (U_cross @ '' Falha ao enviar e-mail: '' @ exn_str e)])"
  by (simp add: enviar_email_def io_defs Let_def split: option.splits)

lemma enviar_email_emails [simp]:
  "filter is_EmailCall (trace (enviar_email x a c w)) = filter is_EmailCall (trace w) @ [EmailCall a c]"
  by (simp add: enviar_email_trace split: option.splits)

lemma enviar_email_uploads [simp]:
  "filter is_upload_event (trace (enviar_email x a c w)) = filter is_upload_event (trace w)"
  by (simp add: enviar_email_trace split: option.splits)

lemma enviar_email_prefix: "prefix (trace w) (trace (enviar_email x a c w))"
  by (simp add: enviar_email_trace)

lemma files_log_info [simp]: "files (log_info m w) = files w"
  by (simp add: io_defs)

lemma files_log_error [simp]: "files (log_error m w) = files w"
  by (simp add: io_defs)

lemma files_now [simp]: "files (snd (datetime_now x z w)) = files w"
  by (simp add: io_defs)

lemma trace_log_info [simp]: "trace (log_info m w) = trace w @ [Log INFO m]"
  by (simp add: io_defs)

lemma trace_log_error [simp]: "trace (log_error m w) = trace w @ [Log ERROR m]"
  by (simp add: io_defs)

lemma trace_now [simp]: "trace (snd (datetime_now x z w)) = trace w"
  by (simp add: io_defs)

lemma clock_log_info [simp]: "clock (log_info m w) = clock w"
  by (simp add: io_defs)

lemma clock_log_error [simp]: "clock (log_error m w) = clock w"
  by (simp add: io_defs)

lemma fst_now [simp]: "fst (datetime_now x z w) = local_now x z (clock w)"
  by (simp add: io_defs)

lemma backup_try_dump_fails:
  "fst (dump x d (backup_filepath g d t) w) = Inl e \<Longrightarrow>
   backup_try x g d s t w = (Some e, s, snd (dump x d (backup_filepath g d t) w))"
  by (simp add: backup_try_def Let_def split_beta)

lemma backup_try_files:
  "files (snd (snd (backup_try x g d s t w))) = files (snd (dump x d (backup_filepath g d t) w))"
  by (simp add: backup_try_def Let_def split_beta split: sum.splits)

lemma backup_try_emails:
  "filter is_EmailCall (trace (snd (snd (backup_try x g d s t w)))) =
   filter is_EmailCall (trace w) @
     (case fst (backup_try x g d s t w) of
        None \<Rightarrow> [EmailCall (fst (email_success g (backup_filename g d t) t))
                           (snd (email_success g (backup_filename g d t) t))]
      | Some e \<Rightarrow> [])"
  by (simp add: backup_try_def Let_def split_beta dump_result split: sum.splits)

lemma backup_try_prefix: "prefix (trace w) (trace (snd (snd (backup_try x g d s t w))))"
proof -
  let ?p = "backup_filepath g d t"
  let ?wd = "snd (dump x d ?p w)"
  have a: "prefix (trace w) (trace ?wd)"
    by (simp add: dump_result Let_def)
  let ?w2 = "log_info (U_check @ '' Backup gerado: '' @ ?p) ?wd"
  have b: "prefix (trace ?wd) (trace ?w2)"
    by (simp add: io_defs)
  let ?up = "upload_file x s ?p (backup_filename g d t) (upload_metadata g d t) ?w2"
  have c: "prefix (trace ?w2) (trace (snd (snd ?up)))"
    by (rule upload_file_prefix)
  have abc: "prefix (trace w) (trace (snd (snd ?up)))"
    using a b c by (meson prefix_order.trans)
  show ?thesis
  proof (cases "fst (dump x d ?p w)")
    case (Inl e)
    then show ?thesis using a by (simp add: backup_try_dump_fails)
  next
    case (Inr out)
    show ?thesis
    proof (cases "fst ?up")
      case (Inl e)
      with Inr abc show ?thesis by (simp add: backup_try_def Let_def split_beta)
    next
      case (Inr key)
      have "prefix (trace (snd (snd ?up))) (trace (snd (snd (backup_try x g d s t w))))"
        using Inr \<open>fst (dump x d ?p w) = Inr out\<close>
        by (simp add: backup_try_def Let_def split_beta enviar_email_trace io_defs)
      with abc show ?thesis by (meson prefix_order.trans)
    qed
  qed
qed

lemma backup_except_files [simp]: "files (backup_except x g e w) = files w"
  by (simp add: backup_except_def Let_def split_beta io_defs)

lemma backup_except_trace:
  "\<exists>t a c rest. trace (backup_except x g e w) = trace w @ Log ERROR a # EmailCall (fst c) (snd c) # rest \<and>
      c = (if is_CalledProcessError e then email_dump_error g t e else email_upload_error g t e) \<and>
      t = local_now x (TIMEZONE g) (clock w) \<and> filter is_EmailCall rest = [] \<and> filter is_upload_event rest = []"
  by (simp add: backup_except_def Let_def split_beta enviar_email_trace io_defs split: option.splits)

lemma backup_finally_result:
  "backup_finally x p w =
     (if p \<in> files w \<and> os_remove x p = None
      then (None, w\<lparr>files := files w - {p},
              trace := trace w @ [Removed p, Log INFO (U_bin @ '' Arquivo de backup local removido.'')]\<rparr>)
      else (if p \<in> files w then os_remove x p else None, w))"
  by (auto simp add: backup_finally_def io_defs split: option.splits)

lemma gerar_backup_eq:
  assumes "dumper g = Some d" "storage g = Some s"
  shows "gerar_backup x g w =
     (let tr = run_try x g d s w;
          w3 = (case fst tr of None \<Rightarrow> snd (snd tr) | Some e \<Rightarrow> backup_except x g e (snd (snd tr)));
          fin = backup_finally x (run_filepath x g d w) w3
      in (fst fin, g\<lparr>storage := Some (fst (snd tr))\<rparr>, snd fin))"
  using assms
  by (simp add: gerar_backup_def run_try_def run_filepath_def run_time_def Let_def split_beta io_defs
      cong: option.case_cong)

lemma new_events_append: "trace w' = trace w @ evs \<Longrightarrow> new_events w w' = evs"
  by (simp add: new_events_def)

lemma filter_new_events:
  assumes "prefix (trace w) (trace w')" "filter P (trace w') = filter P (trace w) @ X"
  shows "filter P (new_events w w') = X"
proof -
  from assms(1) obtain evs where e: "trace w' = trace w @ evs" by (auto simp add: prefix_def)
  with assms(2) have "filter P evs = X" by simp
  with e show ?thesis by (simp add: new_events_append)
qed

lemma run_try_dump_fails:
  "fst (run_dump x g d w) = Inl e \<Longrightarrow> run_try x g d s w = (Some e, s, snd (run_dump x g d w))"
  by (simp add: run_try_def run_dump_def Let_def split_beta backup_try_dump_fails)

lemma run_try_files: "files (snd (snd (run_try x g d s w))) = files (snd (run_dump x g d w))"
  by (simp add: run_try_def run_dump_def Let_def split_beta backup_try_files)

lemma run_try_prefix: "prefix (trace w) (trace (snd (snd (run_try x g d s w))))"
proof -
  let ?w1 = "snd (datetime_now x (TIMEZONE g) (log_info (U_cycle @ '' Iniciando backup...'') w))"
  have "prefix (trace ?w1) (trace (snd (snd (backup_try x g d s (run_time x g w) ?w1))))"
    by (rule backup_try_prefix)
  then show ?thesis
    by (simp add: run_try_def Let_def split_beta run_time_def) (rule append_prefixD)
qed

lemma run_try_emails:
  "filter is_EmailCall (trace (snd (snd (run_try x g d s w)))) =
   filter is_EmailCall (trace w) @
     (case fst (run_try x g d s w) of
        None \<Rightarrow> [EmailCall (fst (email_success g (backup_filename g d (run_time x g w)) (run_time x g w)))
                           (snd (email_success g (backup_filename g d (run_time x g w)) (run_time x g w)))]
      | Some e \<Rightarrow> [])"
  by (simp add: run_try_def Let_def split_beta run_time_def backup_try_emails cong: option.case_cong)

lemma run_dump_trace:
  "\<exists>a b env. trace (snd (run_dump x g d w)) = trace w @ [Log INFO a, Log INFO b, Spawn (dump_command (cls d) d (run_filepath x g d w)) env]"
  by (simp add: run_dump_def Let_def split_beta dump_result run_filepath_def run_time_def)

lemma raised_gerar_backup:
  assumes "dumper g = Some d" "storage g = Some s"
  shows "raised (gerar_backup x g w) =
     (if run_filepath x g d w \<in> files (snd (run_dump x g d w)) then os_remove x (run_filepath x g d w) else None)"
  using assms
  by (simp add: gerar_backup_eq raised_def Let_def backup_finally_result run_try_files split: option.splits)

lemma files_gerar_backup:
  assumes "dumper g = Some d" "storage g = Some s"
  shows "files (world_of (gerar_backup x g w)) =
     (if os_remove x (run_filepath x g d w) = None
      then files (snd (run_dump x g d w)) - {run_filepath x g d w}
      else files (snd (run_dump x g d w)))"
  using assms
  by (auto simp add: gerar_backup_eq world_of_def Let_def backup_finally_result run_try_files split: option.splits)


subsection \<open>The notifications\<close>

lemma sublist_appR: "sublist xs b \<Longrightarrow> sublist xs (a @ b)"
  by (auto simp add: sublist_def) (metis append.assoc)

lemma email_success_names:
  "fst (email_success g f t) = ''Database Backup - SUCESSO'' \<and>
   sublist (fmt (DB_DATABASE g)) (snd (email_success g f t)) \<and>
   sublist (fmt (DB_TYPE g)) (snd (email_success g f t)) \<and>
   sublist (strftime_br t) (snd (email_success g f t)) \<and>
   sublist (TIMEZONE_NAME g) (snd (email_success g f t))"
  unfolding email_success_def fst_conv snd_conv
  by (intro conjI refl; (rule sublist_append_rightI | rule sublist_appR)+)

lemma email_dump_error_names:
  "fst (email_dump_error g t e) = ''Database Backup - ERRO'' \<and>
   sublist (fmt (DB_DATABASE g)) (snd (email_dump_error g t e)) \<and>
   sublist (fmt (DB_TYPE g)) (snd (email_dump_error g t e)) \<and>
   sublist (strftime_br t) (snd (email_dump_error g t e)) \<and>
   sublist (TIMEZONE_NAME g) (snd (email_dump_error g t e)) \<and>
   sublist (exn_str e) (snd (email_dump_error g t e))"
  unfolding email_dump_error_def fst_conv snd_conv
  by (intro conjI refl; (rule sublist_append_rightI | rule sublist_append_leftI | rule sublist_appR)+)

lemma email_upload_error_names:
  "fst (email_upload_error g t e) = ''Database Backup - ERRO'' \<and>
   sublist (fmt (DB_DATABASE g)) (snd (email_upload_error g t e)) \<and>
   sublist (fmt (DB_TYPE g)) (snd (email_upload_error g t e)) \<and>
   sublist (strftime_br t) (snd (email_upload_error g t e)) \<and>
   sublist (TIMEZONE_NAME g) (snd (email_upload_error g t e)) \<and>
   sublist (exn_str e) (snd (email_upload_error g t e))"
  unfolding email_upload_error_def fst_conv snd_conv
  by (intro conjI refl; (rule sublist_append_rightI | rule sublist_append_leftI | rule sublist_appR)+)

lemma dump_smtp [simp]: "dump (x\<lparr>smtp := f\<rparr>) d p w = dump x d p w"
  by (simp add: dump_result)

lemma run_dump_smtp [simp]: "run_dump (x\<lparr>smtp := f\<rparr>) g d w = run_dump x g d w"
  by (simp add: run_dump_def io_defs)

lemma run_filepath_smtp [simp]: "run_filepath (x\<lparr>smtp := f\<rparr>) g d w = run_filepath x g d w"
  by (simp add: run_filepath_def run_time_def)

lemma gerar_backup_emails:
  assumes "dumper g = Some d" "storage g = Some s"
  shows "\<exists>c. filter is_EmailCall (new_events w (world_of (gerar_backup x g w))) = [EmailCall (fst c) (snd c)] \<and>
     (case fst (run_try x g d s w) of
        None \<Rightarrow> c = email_success g (backup_filename g d (run_time x g w)) (run_time x g w)
      | Some e \<Rightarrow> (\<exists>n. c = email_dump_error g (local_now x (TIMEZONE g) n) e \<or>
                        c = email_upload_error g (local_now x (TIMEZONE g) n) e))"
proof -
  define tr where "tr = run_try x g d s w"
  define w2 where "w2 = snd (snd tr)"
  define p where "p = run_filepath x g d w"
  define w3 where "w3 = (case fst tr of None \<Rightarrow> w2 | Some e \<Rightarrow> backup_except x g e w2)"
  define w4 where "w4 = snd (backup_finally x p w3)"
  define ok where "ok = email_success g (backup_filename g d (run_time x g w)) (run_time x g w)"
  have gb: "world_of (gerar_backup x g w) = w4"
    using assms by (simp add: gerar_backup_eq Let_def world_of_def w4_def w3_def w2_def tr_def p_def
        cong: option.case_cong)
  have p2: "prefix (trace w) (trace w2)"
    unfolding w2_def tr_def by (rule run_try_prefix)
  have e2: "filter is_EmailCall (trace w2) = filter is_EmailCall (trace w) @
     (case fst tr of None \<Rightarrow> [EmailCall (fst ok) (snd ok)] | Some e \<Rightarrow> [])"
    unfolding w2_def tr_def ok_def by (rule run_try_emails)
  have p4: "prefix (trace w3) (trace w4)"
    unfolding w4_def by (simp add: backup_finally_result)
  have e4: "filter is_EmailCall (trace w4) = filter is_EmailCall (trace w3)"
    unfolding w4_def by (simp add: backup_finally_result)
  show ?thesis
  proof (cases "fst tr")
    case None
    then have w3: "w3 = w2" by (simp add: w3_def)
    have "prefix (trace w) (trace w4)"
      using p2 p4 unfolding w3 by (rule prefix_order.trans)
    moreover have "filter is_EmailCall (trace w4) = filter is_EmailCall (trace w) @ [EmailCall (fst ok) (snd ok)]"
      using e4 e2 None by (simp add: w3)
    ultimately have "filter is_EmailCall (new_events w w4) = [EmailCall (fst ok) (snd ok)]"
      by (rule filter_new_events)
    then show ?thesis
      unfolding gb using None unfolding tr_def ok_def by (intro exI[of _ ok]) (simp add: ok_def)
  next
    case (Some e)
    then have w3: "w3 = backup_except x g e w2" by (simp add: w3_def)
    obtain m c rest where t: "trace (backup_except x g e w2) = trace w2 @ Log ERROR m # EmailCall (fst c) (snd c) # rest"
      and c: "c = (if is_CalledProcessError e then email_dump_error g (local_now x (TIMEZONE g) (clock w2)) e
                   else email_upload_error g (local_now x (TIMEZONE g) (clock w2)) e)"
      and r: "filter is_EmailCall rest = []"
      using backup_except_trace[of x g e w2] by blast
    have "prefix (trace w2) (trace w3)" unfolding w3 t by simp
    with p2 have "prefix (trace w) (trace w3)" by (rule prefix_order.trans)
    then have "prefix (trace w) (trace w4)" using p4 by (rule prefix_order.trans)
    moreover have "filter is_EmailCall (trace w4) = filter is_EmailCall (trace w) @ [EmailCall (fst c) (snd c)]"
      using e4 e2 Some r by (simp add: w3 t)
    ultimately have one: "filter is_EmailCall (new_events w w4) = [EmailCall (fst c) (snd c)]"
      by (rule filter_new_events)
    have "c = email_dump_error g (local_now x (TIMEZONE g) (clock w2)) e \<or>
          c = email_upload_error g (local_now x (TIMEZONE g) (clock w2)) e"
      using c by (cases "is_CalledProcessError e") simp_all
    then have "\<exists>n. c = email_dump_error g (local_now x (TIMEZONE g) n) e \<or>
                        c = email_upload_error g (local_now x (TIMEZONE g) n) e"
      by (rule exI)
    with one show ?thesis
      unfolding gb using Some unfolding tr_def by (intro exI[of _ c]) simp
  qed
qed

subsection \<open>Independence of the cleanup\<close>

lemma dump_os_remove [simp]: "dump (x\<lparr>os_remove := f\<rparr>) d p w = dump x d p w"
  by (simp add: dump_result)

lemma enviar_email_os_remove [simp]: "enviar_email (x\<lparr>os_remove := f\<rparr>) a c w = enviar_email x a c w"
  by (simp add: enviar_email_def)

lemma datetime_now_os_remove [simp]: "datetime_now (x\<lparr>os_remove := f\<rparr>) z w = datetime_now x z w"
  by (simp add: datetime_now_def)

lemma client_os_remove [simp]: "client (x\<lparr>os_remove := f\<rparr>) s w = client x s w"
  by (simp add: client_def Let_def cong: option.case_cong)

lemma build_os_remove [simp]:
  "build_destination_path (x\<lparr>os_remove := f\<rparr>) s n w = build_destination_path x s n w"
  by (simp add: build_destination_path_def Let_def split_beta)

lemma upload_file_os_remove [simp]:
  "upload_file (x\<lparr>os_remove := f\<rparr>) s p n m w = upload_file x s p n m w"
  by (simp add: upload_file_def Let_def split_beta cong: sum.case_cong option.case_cong if_cong)

lemma backup_try_os_remove [simp]:
  "backup_try (x\<lparr>os_remove := f\<rparr>) g d s t w = backup_try x g d s t w"
  by (simp add: backup_try_def Let_def split_beta cong: sum.case_cong option.case_cong if_cong)

lemma backup_except_os_remove [simp]:
  "backup_except (x\<lparr>os_remove := f\<rparr>) g e w = backup_except x g e w"
  by (simp add: backup_except_def Let_def split_beta cong: if_cong)

lemma run_try_os_remove [simp]: "run_try (x\<lparr>os_remove := f\<rparr>) g d s w = run_try x g d s w"
  by (simp add: run_try_def Let_def split_beta)

lemma run_filepath_os_remove [simp]: "run_filepath (x\<lparr>os_remove := f\<rparr>) g d w = run_filepath x g d w"
  by (simp add: run_filepath_def run_time_def)


subsection \<open>What the error text holds\<close>

lemma sublist_trans: "sublist a b \<Longrightarrow> sublist b c \<Longrightarrow> sublist a c"
  by (rule sublist_order.order_trans)

lemma password_in_command:
  "cls d \<noteq> PostgresDumper \<Longrightarrow> sublist (password d) (dump_command (cls d) d p)"
proof (cases "cls d")
  case PostgresDumper
  assume "cls d \<noteq> PostgresDumper"
  with PostgresDumper show ?thesis by simp
next
  case MySQLDumper
  show ?thesis unfolding MySQLDumper dump_command.simps
    by (rule sublist_append_rightI | rule sublist_appR)+
next
  case MSSQLDumper
  show ?thesis unfolding MSSQLDumper dump_command.simps
    by (rule sublist_append_rightI | rule sublist_appR)+
qed

lemma command_in_exn_str: "sublist cmd (exn_str (CalledProcessError cmd rc))"
  unfolding exn_str.simps by (rule sublist_append_rightI | rule sublist_appR)+

lemma backup_except_dump:
  "is_CalledProcessError e \<Longrightarrow>
   \<exists>a c rest. trace (backup_except x g e w) =
      trace w @ Log ERROR (U_cross @ '' Erro ao gerar backup: '' @ exn_str e) # EmailCall a c # rest"
  by (simp add: backup_except_def Let_def split_beta enviar_email_trace)


lemma upload_file_key:
  "fst (upload_file x s p f m w) = Inr key \<Longrightarrow>
     key = fst (build_destination_path x s f (emit (UploadFileCall p f) w))"
  by (simp add: upload_file_def Let_def split_beta split: if_splits sum.splits option.splits)

lemma upload_file_folder: "destination_folder (fst (snd (upload_file x s p f m w))) = destination_folder s"
  by (simp add: upload_file_def client_def Let_def split_beta split: if_splits sum.splits option.splits)


subsection \<open>The concrete runs, evaluated\<close>

lemma filepath_remove_fails: "run_filepath x_remove_fails g_0 d_mysql w_0 = tmp_0"
  by code_simp

lemma remove_fails_run:
  "raised (gerar_backup x_remove_fails g_0 w_0) = Some (OSError ''[Errno 13] Permission denied'') \<and>
   tmp_0 \<in> files (world_of (gerar_backup x_remove_fails g_0 w_0)) \<and>
   \<not> list_ex is_error_log (new_events w_0 (world_of (gerar_backup x_remove_fails g_0 w_0)))"
  by code_simp

lemma dump_fails_run:
  "fst (run_dump x_dump_fails g_0 d_mysql w_0) =
     Inl (CalledProcessError (dump_command MySQLDumper d_mysql tmp_0) 2)"
  by code_simp

lemma dump_fails_mail:
  "email_bodies (new_events w_0 (world_of (gerar_backup x_dump_fails g_0 w_0))) =
     [''Falha ao gerar o backup da base de dados '' @ [CHR 0x27] @ ''shop'' @ [CHR 0x27] @
      '' (mysql) em 09/03/2024 '' @ a_grave @ ''s 02:30:05 (America/Sao_Paulo).'' @
      [CHR 0x0A, CHR 0x0A] @ ''Erro: Command '' @ [CHR 0x27] @
      ''mysqldump --host=db --port=3306 --user=root --password=s3cr3t '' @
      ''--single-transaction --routines --triggers --databases shop '' @
      ''--result-file=/tmp/backup_shop_20240309_023005.sql'' @
      [CHR 0x27] @ '' returned non-zero exit status 2.'']"
  by code_simp

lemma run_try_result:
  "fst (run_try x g d s w) =
     (case fst (run_dump x g d w) of
        Inl e \<Rightarrow> Some e
      | Inr out \<Rightarrow> (case fst (run_upload x g d s w) of Inl e \<Rightarrow> Some e | Inr key \<Rightarrow> None))"
  by (simp add: run_try_def run_dump_def run_upload_def run_filepath_def run_time_def
      backup_try_def Let_def split_beta split: sum.splits)

lemma upload_fails_dump: "fst (run_dump x_upload_fails g_0 d_mysql w_0) = Inr tmp_0"
  by code_simp

lemma upload_fails_upload:
  "fst (run_upload x_upload_fails g_0 d_mysql s_r2 w_0) =
     Inl (ClientError (Some ''AccessDenied'')
       ''An error occurred (AccessDenied) when calling the PutObject operation: Access Denied'')"
  by code_simp

lemma ok_run_dump: "fst (run_dump x_ok g_0 d_mysql w_0) = Inr tmp_0"
  by code_simp

lemma ok_run_upload:
  "fst (run_upload x_ok g_0 d_mysql s_r2 w_0) =
     Inr ''backups/20240309/backup_shop_20240309_023005.sql''"
  by code_simp

section \<open>The claims\<close>

text \<open>
  C1 (as amended). In every run with both collaborators configured the \<open>finally\<close> clause is
  reached whatever the \<open>try\<close> body and the handlers did. When \<open>os.remove\<close> does not raise
  for the temp path, the run returns normally and the temp file is absent at the end. When
  \<open>os.remove\<close> raises, nothing catches it: if the file is there at the end the error has
  reached the caller and nothing was logged about it (the trace is the one of the same run
  with a working \<open>os.remove\<close>, less its last two events); if the file is not there the run
  returned normally.
\<close>

theorem cleanup_removes_temp_file:
  assumes "dumper g = Some d" "storage g = Some s"
  shows "(os_remove x (run_filepath x g d w) = None \<longrightarrow>
            raised (gerar_backup x g w) = None \<and>
            run_filepath x g d w \<notin> files (world_of (gerar_backup x g w))) \<and>
         (\<forall>e. os_remove x (run_filepath x g d w) = Some e \<longrightarrow>
            (run_filepath x g d w \<notin> files (world_of (gerar_backup x g w)) \<longrightarrow>
               raised (gerar_backup x g w) = None) \<and>
            (run_filepath x g d w \<in> files (world_of (gerar_backup x g w)) \<longrightarrow>
               raised (gerar_backup x g w) = Some e \<and>
               trace (world_of (gerar_backup (x\<lparr>os_remove := \<lambda>q. None\<rparr>) g w)) =
                 trace (world_of (gerar_backup x g w)) @
                 [Removed (run_filepath x g d w),
                  Log INFO (U_bin @ '' Arquivo de backup local removido.'')]))"
proof -
  define p where "p = run_filepath x g d w"
  define tr where "tr = run_try x g d s w"
  define w3 where "w3 = (case fst tr of None \<Rightarrow> snd (snd tr) | Some e \<Rightarrow> backup_except x g e (snd (snd tr)))"
  have f3: "files w3 = files (snd (run_dump x g d w))"
    unfolding w3_def tr_def by (simp add: run_try_files split: option.splits)
  have gb: "world_of (gerar_backup x g w) = snd (backup_finally x p w3)"
    using assms by (simp add: gerar_backup_eq Let_def world_of_def w3_def tr_def p_def
        cong: option.case_cong)
  have gb': "world_of (gerar_backup (x\<lparr>os_remove := \<lambda>q. None\<rparr>) g w) =
      snd (backup_finally (x\<lparr>os_remove := \<lambda>q. None\<rparr>) p w3)"
    using assms by (simp add: gerar_backup_eq Let_def world_of_def w3_def tr_def p_def
        cong: option.case_cong)
  have r: "raised (gerar_backup x g w) = (if p \<in> files w3 then os_remove x p else None)"
    using assms by (simp add: raised_gerar_backup f3 p_def)
  show ?thesis
    unfolding p_def[symmetric] gb gb' r
    by (auto simp add: backup_finally_result)
qed

theorem cleanup_removes_temp_file_witness:
  "dumper g_0 = Some d_mysql \<and> storage g_0 = Some s_r2 \<and>
   os_remove x_ok (run_filepath x_ok g_0 d_mysql w_0) = None \<and>
   raised (gerar_backup x_ok g_0 w_0) = None \<and>
   run_filepath x_ok g_0 d_mysql w_0 \<notin> files (world_of (gerar_backup x_ok g_0 w_0)) \<and>
   os_remove x_remove_fails (run_filepath x_remove_fails g_0 d_mysql w_0) =
     Some (OSError ''[Errno 13] Permission denied'') \<and>
   run_filepath x_remove_fails g_0 d_mysql w_0 \<in> files (world_of (gerar_backup x_remove_fails g_0 w_0)) \<and>
   raised (gerar_backup x_remove_fails g_0 w_0) = Some (OSError ''[Errno 13] Permission denied'')"
proof -
  have h1: "dumper g_0 = Some d_mysql" by (simp add: g_0_def)
  have h2: "storage g_0 = Some s_r2" by (simp add: g_0_def)
  have h3: "os_remove x_ok (run_filepath x_ok g_0 d_mysql w_0) = None" by (simp add: x_ok_def)
  have h4: "os_remove x_remove_fails (run_filepath x_remove_fails g_0 d_mysql w_0) =
     Some (OSError ''[Errno 13] Permission denied'')"
    by (simp add: x_remove_fails_def)
  have h5: "run_filepath x_remove_fails g_0 d_mysql w_0 \<in> files (world_of (gerar_backup x_remove_fails g_0 w_0))"
    using remove_fails_run by (simp add: filepath_remove_fails)
  show ?thesis
    using h1 h2 h3 h4 h5 cleanup_removes_temp_file[OF h1 h2, of x_ok w_0]
      cleanup_removes_temp_file[OF h1 h2, of x_remove_fails w_0]
    by blast
qed

text \<open>
  C1 as the specification states it fails: with a dump, an upload and a notification that
  all work, and an \<open>os.remove\<close> that is refused, the error leaves \<open>gerar_backup\<close>, the temp
  file stays, and the run logged no error.
\<close>

theorem cleanup_error_reaches_caller:
  "raised (gerar_backup x_remove_fails g_0 w_0) = Some (OSError ''[Errno 13] Permission denied'') \<and>
   tmp_0 \<in> files (world_of (gerar_backup x_remove_fails g_0 w_0)) \<and>
   \<not> list_ex is_error_log (new_events w_0 (world_of (gerar_backup x_remove_fails g_0 w_0)))"
  by (rule remove_fails_run)

text \<open>
  C2. When the call of \<open>dump\<close> made by a run raises, the run records no call of
  \<open>upload_file\<close>, builds no storage client and sends nothing to the bucket, and the storage
  object is left as it was.
\<close>

theorem no_upload_after_dump_failure:
  assumes "dumper g = Some d" "storage g = Some s" "fst (run_dump x g d w) = Inl e"
  shows "filter is_upload_event (new_events w (world_of (gerar_backup x g w))) = [] \<and>
         storage (fst (snd (gerar_backup x g w))) = Some s"
proof -
  let ?wd = "snd (run_dump x g d w)"
  let ?w3 = "backup_except x g e ?wd"
  let ?p = "run_filepath x g d w"
  have rt: "run_try x g d s w = (Some e, s, ?wd)"
    using assms(3) by (rule run_try_dump_fails)
  have gb: "gerar_backup x g w = (fst (backup_finally x ?p ?w3), g\<lparr>storage := Some s\<rparr>, snd (backup_finally x ?p ?w3))"
    using assms(1,2) rt by (simp add: gerar_backup_eq Let_def)
  obtain a b env where t1: "trace ?wd = trace w @ [Log INFO a, Log INFO b, Spawn (dump_command (cls d) d ?p) env]"
    using run_dump_trace by blast
  obtain m c rest where t2: "trace ?w3 = trace ?wd @ Log ERROR m # EmailCall (fst c) (snd c) # rest"
      and r: "filter is_upload_event rest = []"
    using backup_except_trace[of x g e ?wd] by blast
  have "\<exists>evs. trace (snd (backup_finally x ?p ?w3)) = trace w @ evs \<and> filter is_upload_event evs = []"
    using t1 t2 r by (simp add: backup_finally_result)
  then have "filter is_upload_event (new_events w (snd (backup_finally x ?p ?w3))) = []"
    by (auto simp add: new_events_append)
  then show ?thesis using gb assms(1,2) by (simp add: world_of_def)
qed

theorem no_upload_after_dump_failure_witness:
  "dumper g_0 = Some d_mysql \<and> storage g_0 = Some s_r2 \<and>
   fst (run_dump x_dump_fails g_0 d_mysql w_0) =
     Inl (CalledProcessError (dump_command MySQLDumper d_mysql tmp_0) 2) \<and>
   filter is_upload_event (new_events w_0 (world_of (gerar_backup x_dump_fails g_0 w_0))) = [] \<and>
   storage (fst (snd (gerar_backup x_dump_fails g_0 w_0))) = Some s_r2"
proof -
  have h1: "dumper g_0 = Some d_mysql" by (simp add: g_0_def)
  have h2: "storage g_0 = Some s_r2" by (simp add: g_0_def)
  show ?thesis
    using h1 h2 dump_fails_run no_upload_after_dump_failure[OF h1 h2 dump_fails_run] by simp
qed

text \<open>
  C3 fails on the code. The line logged before the command runs does hide the password, but
  when the dump of a MySQL, MariaDB or SQL Server database fails, the handler of
  \<open>gerar_backup\<close> prints the exception, whose text quotes the whole command: the password
  is in the one notification of the run and in an ERROR line of the log.
\<close>

theorem dump_failure_discloses_password:
  assumes "dumper g = Some d" "storage g = Some s" "cls d \<noteq> PostgresDumper"
    "fst (run_dump x g d w) = Inl e"
  shows "\<exists>a c m. filter is_EmailCall (new_events w (world_of (gerar_backup x g w))) = [EmailCall a c] \<and>
      sublist (password d) c \<and>
      Log ERROR m \<in> set (new_events w (world_of (gerar_backup x g w))) \<and> sublist (password d) m"
proof -
  define p where "p = run_filepath x g d w"
  define wd where "wd = snd (run_dump x g d w)"
  define w3 where "w3 = backup_except x g e wd"
  define w4 where "w4 = snd (backup_finally x p w3)"
  have rt: "run_try x g d s w = (Some e, s, wd)"
    unfolding wd_def using assms(4) by (rule run_try_dump_fails)
  have gb: "world_of (gerar_backup x g w) = w4"
    using assms(1,2) rt by (simp add: gerar_backup_eq Let_def world_of_def w4_def w3_def p_def)
  obtain rc where e: "e = CalledProcessError (dump_command (cls d) d p) rc"
    using assms(4) dump_raises[of x d p]
    by (auto simp add: run_dump_def Let_def split_beta p_def run_filepath_def run_time_def)
  have pw: "sublist (password d) (exn_str e)"
    unfolding e using password_in_command[OF assms(3)] command_in_exn_str by (rule sublist_trans)
  have "\<exists>c. filter is_EmailCall (new_events w w4) = [EmailCall (fst c) (snd c)] \<and>
      (\<exists>n. c = email_dump_error g (local_now x (TIMEZONE g) n) e \<or>
                        c = email_upload_error g (local_now x (TIMEZONE g) n) e)"
    using gerar_backup_emails[OF assms(1,2), of w x] rt unfolding gb by simp
  then obtain c where one: "filter is_EmailCall (new_events w w4) = [EmailCall (fst c) (snd c)]"
    and c: "\<exists>n. c = email_dump_error g (local_now x (TIMEZONE g) n) e \<or>
                        c = email_upload_error g (local_now x (TIMEZONE g) n) e"
    by blast
  have "sublist (exn_str e) (snd c)"
    using c email_dump_error_names email_upload_error_names by auto
  with pw have body: "sublist (password d) (snd c)" by (rule sublist_trans)
  define m where "m = U_cross @ '' Erro ao gerar backup: '' @ exn_str e"
  have "sublist (exn_str e) m"
    unfolding m_def by (rule sublist_append_leftI | rule sublist_appR)+
  with pw have logm: "sublist (password d) m" by (rule sublist_trans)
  obtain a b env where t1: "trace wd = trace w @ [Log INFO a, Log INFO b, Spawn (dump_command (cls d) d p) env]"
    unfolding wd_def p_def using run_dump_trace by blast
  obtain a' c' rest where t3: "trace w3 = trace wd @ Log ERROR m # EmailCall a' c' # rest"
    unfolding w3_def m_def using backup_except_dump[of e x g wd] e by auto
  have "\<exists>evs. trace w4 = trace w @ evs \<and> Log ERROR m \<in> set evs"
    unfolding w4_def by (simp add: backup_finally_result t3 t1)
  then have "Log ERROR m \<in> set (new_events w w4)"
    by (auto simp add: new_events_append)
  with one body logm show ?thesis unfolding gb by blast
qed

theorem dump_failure_discloses_password_witness:
  "dumper g_0 = Some d_mysql \<and> storage g_0 = Some s_r2 \<and> cls d_mysql \<noteq> PostgresDumper \<and>
   password d_mysql = ''s3cr3t'' \<and>
   fst (run_dump x_dump_fails g_0 d_mysql w_0) =
     Inl (CalledProcessError (dump_command MySQLDumper d_mysql tmp_0) 2) \<and>
   (\<exists>a c m. filter is_EmailCall (new_events w_0 (world_of (gerar_backup x_dump_fails g_0 w_0))) =
        [EmailCall a c] \<and>
      sublist (password d_mysql) c \<and>
      Log ERROR m \<in> set (new_events w_0 (world_of (gerar_backup x_dump_fails g_0 w_0))) \<and>
      sublist (password d_mysql) m) \<and>
   email_bodies (new_events w_0 (world_of (gerar_backup x_dump_fails g_0 w_0))) =
     [''Falha ao gerar o backup da base de dados '' @ [CHR 0x27] @ ''shop'' @ [CHR 0x27] @
      '' (mysql) em 09/03/2024 '' @ a_grave @ ''s 02:30:05 (America/Sao_Paulo).'' @
      [CHR 0x0A, CHR 0x0A] @ ''Erro: Command '' @ [CHR 0x27] @
      ''mysqldump --host=db --port=3306 --user=root --password=s3cr3t '' @
      ''--single-transaction --routines --triggers --databases shop '' @
      ''--result-file=/tmp/backup_shop_20240309_023005.sql'' @
      [CHR 0x27] @ '' returned non-zero exit status 2.'']"
proof -
  have h1: "dumper g_0 = Some d_mysql" by (simp add: g_0_def)
  have h2: "storage g_0 = Some s_r2" by (simp add: g_0_def)
  have h3: "cls d_mysql \<noteq> PostgresDumper" by (simp add: d_mysql_def)
  have h4: "password d_mysql = ''s3cr3t''" by (simp add: d_mysql_def)
  show ?thesis
    using h1 h2 h3 h4 dump_fails_run dump_fails_mail
      dump_failure_discloses_password[OF h1 h2 h3 dump_fails_run]
    by (intro conjI)
qed

text \<open>
  C4. A run with both collaborators configured calls the notifier exactly once. When the
  call of \<open>dump\<close> the run makes raises, or that call returns and the call of
  \<open>upload_file\<close> raises, the subject is the error subject and the body holds the text of
  that exception and a local time; when both return, the subject is the success subject and
  the body holds the local time of the run. Every body holds the database name, the engine
  kind and the timezone name. What the mail transport does has no effect on whether the run
  raises.
\<close>

theorem exactly_one_notification:
  assumes "dumper g = Some d" and "storage g = Some s"
  shows "(\<exists>a c. filter is_EmailCall (new_events w (world_of (gerar_backup x g w))) = [EmailCall a c] \<and>
           (case fst (run_dump x g d w) of
              Inl e \<Rightarrow> a = ''Database Backup - ERRO'' \<and> sublist (exn_str e) c \<and>
                 (\<exists>n. sublist (strftime_br (local_now x (TIMEZONE g) n)) c)
            | Inr out \<Rightarrow>
                (case fst (run_upload x g d s w) of
                   Inl e \<Rightarrow> a = ''Database Backup - ERRO'' \<and> sublist (exn_str e) c \<and>
                      (\<exists>n. sublist (strftime_br (local_now x (TIMEZONE g) n)) c)
                 | Inr key \<Rightarrow> a = ''Database Backup - SUCESSO'' \<and>
                      sublist (strftime_br (run_time x g w)) c)) \<and>
           sublist (fmt (DB_DATABASE g)) c \<and> sublist (fmt (DB_TYPE g)) c \<and>
           sublist (TIMEZONE_NAME g) c) \<and>
         raised (gerar_backup (x\<lparr>smtp := f\<rparr>) g w) = raised (gerar_backup x g w)"
proof -
  define r where "r = fst (run_try x g d s w)"
  obtain c where one: "filter is_EmailCall (new_events w (world_of (gerar_backup x g w))) = [EmailCall (fst c) (snd c)]"
    and c: "case r of
        None \<Rightarrow> c = email_success g (backup_filename g d (run_time x g w)) (run_time x g w)
      | Some e \<Rightarrow> (\<exists>n. c = email_dump_error g (local_now x (TIMEZONE g) n) e \<or>
                        c = email_upload_error g (local_now x (TIMEZONE g) n) e)"
    unfolding r_def using gerar_backup_emails[OF assms] by blast
  have names: "(case r of
              None \<Rightarrow> fst c = ''Database Backup - SUCESSO'' \<and> sublist (strftime_br (run_time x g w)) (snd c)
            | Some e \<Rightarrow> fst c = ''Database Backup - ERRO'' \<and> sublist (exn_str e) (snd c) \<and>
                 (\<exists>n. sublist (strftime_br (local_now x (TIMEZONE g) n)) (snd c))) \<and>
           sublist (fmt (DB_DATABASE g)) (snd c) \<and> sublist (fmt (DB_TYPE g)) (snd c) \<and>
           sublist (TIMEZONE_NAME g) (snd c)"
  proof (cases r)
    case None
    with c show ?thesis using email_success_names by simp
  next
    case (Some e)
    with c obtain n where "c = email_dump_error g (local_now x (TIMEZONE g) n) e \<or>
                        c = email_upload_error g (local_now x (TIMEZONE g) n) e" by auto
    then show ?thesis
      using Some email_dump_error_names[of g "local_now x (TIMEZONE g) n" e]
        email_upload_error_names[of g "local_now x (TIMEZONE g) n" e] by auto
  qed
  have r: "r = (case fst (run_dump x g d w) of
        Inl e \<Rightarrow> Some e
      | Inr out \<Rightarrow> (case fst (run_upload x g d s w) of Inl e \<Rightarrow> Some e | Inr key \<Rightarrow> None))"
    unfolding r_def by (rule run_try_result)
  have cases: "(case fst (run_dump x g d w) of
              Inl e \<Rightarrow> fst c = ''Database Backup - ERRO'' \<and> sublist (exn_str e) (snd c) \<and>
                 (\<exists>n. sublist (strftime_br (local_now x (TIMEZONE g) n)) (snd c))
            | Inr out \<Rightarrow>
                (case fst (run_upload x g d s w) of
                   Inl e \<Rightarrow> fst c = ''Database Backup - ERRO'' \<and> sublist (exn_str e) (snd c) \<and>
                      (\<exists>n. sublist (strftime_br (local_now x (TIMEZONE g) n)) (snd c))
                 | Inr key \<Rightarrow> fst c = ''Database Backup - SUCESSO'' \<and>
                      sublist (strftime_br (run_time x g w)) (snd c)))"
    using names unfolding r by (simp split: sum.splits)
  have "raised (gerar_backup (x\<lparr>smtp := f\<rparr>) g w) = raised (gerar_backup x g w)"
    using assms by (simp add: raised_gerar_backup)
  with one cases names show ?thesis by blast
qed

theorem exactly_one_notification_witness:
  "dumper g_0 = Some d_mysql \<and> storage g_0 = Some s_r2 \<and>
   fst (run_dump x_dump_fails g_0 d_mysql w_0) =
     Inl (CalledProcessError (dump_command MySQLDumper d_mysql tmp_0) 2) \<and>
   (\<exists>a c. filter is_EmailCall (new_events w_0 (world_of (gerar_backup x_dump_fails g_0 w_0))) =
        [EmailCall a c] \<and>
      a = ''Database Backup - ERRO'' \<and>
      sublist (exn_str (CalledProcessError (dump_command MySQLDumper d_mysql tmp_0) 2)) c \<and>
      sublist (fmt (DB_DATABASE g_0)) c \<and> sublist (fmt (DB_TYPE g_0)) c \<and>
      sublist (TIMEZONE_NAME g_0) c) \<and>
   fst (run_dump x_upload_fails g_0 d_mysql w_0) = Inr tmp_0 \<and>
   fst (run_upload x_upload_fails g_0 d_mysql s_r2 w_0) =
     Inl (ClientError (Some ''AccessDenied'')
       ''An error occurred (AccessDenied) when calling the PutObject operation: Access Denied'') \<and>
   (\<exists>a c. filter is_EmailCall (new_events w_0 (world_of (gerar_backup x_upload_fails g_0 w_0))) =
        [EmailCall a c] \<and>
      a = ''Database Backup - ERRO'' \<and>
      sublist (exn_str (ClientError (Some ''AccessDenied'')
        ''An error occurred (AccessDenied) when calling the PutObject operation: Access Denied'')) c \<and>
      sublist (fmt (DB_DATABASE g_0)) c \<and> sublist (fmt (DB_TYPE g_0)) c \<and>
      sublist (TIMEZONE_NAME g_0) c) \<and>
   fst (run_dump x_ok g_0 d_mysql w_0) = Inr tmp_0 \<and>
   fst (run_upload x_ok g_0 d_mysql s_r2 w_0) =
     Inr ''backups/20240309/backup_shop_20240309_023005.sql'' \<and>
   (\<exists>a c. filter is_EmailCall (new_events w_0 (world_of (gerar_backup x_ok g_0 w_0))) =
        [EmailCall a c] \<and>
      a = ''Database Backup - SUCESSO'' \<and>
      sublist (strftime_br (run_time x_ok g_0 w_0)) c \<and>
      sublist (fmt (DB_DATABASE g_0)) c \<and> sublist (fmt (DB_TYPE g_0)) c \<and>
      sublist (TIMEZONE_NAME g_0) c) \<and>
   raised (gerar_backup (x_ok\<lparr>smtp := smtp x_smtp_fails\<rparr>) g_0 w_0) = raised (gerar_backup x_ok g_0 w_0)"
proof -
  have h1: "dumper g_0 = Some d_mysql" by (simp add: g_0_def)
  have h2: "storage g_0 = Some s_r2" by (simp add: g_0_def)
  have a: "\<exists>a c. filter is_EmailCall (new_events w_0 (world_of (gerar_backup x_dump_fails g_0 w_0))) =
        [EmailCall a c] \<and>
      a = ''Database Backup - ERRO'' \<and>
      sublist (exn_str (CalledProcessError (dump_command MySQLDumper d_mysql tmp_0) 2)) c \<and>
      sublist (fmt (DB_DATABASE g_0)) c \<and> sublist (fmt (DB_TYPE g_0)) c \<and>
      sublist (TIMEZONE_NAME g_0) c"
    using exactly_one_notification[OF h1 h2, of w_0 x_dump_fails "smtp x_ok"]
    unfolding dump_fails_run sum.case by blast
  have b: "\<exists>a c. filter is_EmailCall (new_events w_0 (world_of (gerar_backup x_upload_fails g_0 w_0))) =
        [EmailCall a c] \<and>
      a = ''Database Backup - ERRO'' \<and>
      sublist (exn_str (ClientError (Some ''AccessDenied'')
        ''An error occurred (AccessDenied) when calling the PutObject operation: Access Denied'')) c \<and>
      sublist (fmt (DB_DATABASE g_0)) c \<and> sublist (fmt (DB_TYPE g_0)) c \<and>
      sublist (TIMEZONE_NAME g_0) c"
    using exactly_one_notification[OF h1 h2, of w_0 x_upload_fails "smtp x_ok"]
    unfolding upload_fails_dump upload_fails_upload sum.case by blast
  have c: "(\<exists>a c. filter is_EmailCall (new_events w_0 (world_of (gerar_backup x_ok g_0 w_0))) =
        [EmailCall a c] \<and>
      a = ''Database Backup - SUCESSO'' \<and>
      sublist (strftime_br (run_time x_ok g_0 w_0)) c \<and>
      sublist (fmt (DB_DATABASE g_0)) c \<and> sublist (fmt (DB_TYPE g_0)) c \<and>
      sublist (TIMEZONE_NAME g_0) c) \<and>
     raised (gerar_backup (x_ok\<lparr>smtp := smtp x_smtp_fails\<rparr>) g_0 w_0) = raised (gerar_backup x_ok g_0 w_0)"
    using exactly_one_notification[OF h1 h2, of w_0 x_ok "smtp x_smtp_fails"]
    unfolding ok_run_dump ok_run_upload sum.case by blast
  show ?thesis
    using h1 h2 a b c dump_fails_run upload_fails_dump upload_fails_upload ok_run_dump ok_run_upload
    by (intro conjI) blast+
qed

text \<open>
  C5. A constructor succeeds exactly when each setting its variant requires is a non-empty
  string: host, port, user, password and database name for the three dumpers; access key,
  secret key and bucket name for both storage providers, with the endpoint URL for R2 and
  the region for S3.
\<close>

theorem construction_iff_required_fields:
  "((\<exists>d. PostgresDumper_init h p u pw db = Inr d) \<longleftrightarrow>
      truthy h \<and> truthy p \<and> truthy u \<and> truthy pw \<and> truthy db) \<and>
   ((\<exists>d. MySQLDumper_init h p u pw db ty = Inr d) \<longleftrightarrow>
      truthy h \<and> truthy p \<and> truthy u \<and> truthy pw \<and> truthy db) \<and>
   ((\<exists>d. MSSQLDumper_init h p u pw db = Inr d) \<longleftrightarrow>
      truthy h \<and> truthy p \<and> truthy u \<and> truthy pw \<and> truthy db) \<and>
   ((\<exists>s. R2Storage_init ep ak sk b df = Inr s) \<longleftrightarrow>
      truthy ep \<and> truthy ak \<and> truthy sk \<and> truthy b) \<and>
   ((\<exists>s. S3Storage_init ak sk b rg ep df = Inr s) \<longleftrightarrow>
      truthy rg \<and> truthy ak \<and> truthy sk \<and> truthy b)"
  by (simp add: PostgresDumper_init_def MySQLDumper_init_def MSSQLDumper_init_def
      DatabaseDumper_init_def R2Storage_init_def S3Storage_init_def StorageProvider_init_def)

theorem construction_iff_required_fields_witness:
  "(\<exists>s. R2Storage_init (Some ''https://r2.example'') (Some ''AK'') (Some ''SK'') (Some ''bkt'') None = Inr s) \<and>
   \<not> (\<exists>s. R2Storage_init None (Some ''AK'') (Some ''SK'') (Some ''bkt'') None = Inr s) \<and>
   \<not> (\<exists>s. S3Storage_init (Some ''AK'') (Some ''SK'') (Some ''bkt'') (Some '''') None None = Inr s) \<and>
   \<not> (\<exists>d. PostgresDumper_init (Some ''db'') (Some ''5432'') (Some ''postgres'') None (Some ''shop'') = Inr d)"
  using construction_iff_required_fields[of "Some ''db''" "Some ''5432''" "Some ''postgres''" None
      "Some ''shop''" "''mysql''" "Some ''https://r2.example''" "Some ''AK''" "Some ''SK''" "Some ''bkt''" None "Some ''''"]
    construction_iff_required_fields[of "Some ''db''" "Some ''5432''" "Some ''postgres''" None
      "Some ''shop''" "''mysql''" None "Some ''AK''" "Some ''SK''" "Some ''bkt''" None "Some ''''"]
  by simp



text \<open>
  C7. The extension of the dump file is fixed by the engine kind: every kind the factory
  accepts is mapped to a class, and the class of postgres, mysql and mariadb answers
  \<open>.sql\<close>, the class of mssql answers \<open>.bak\<close>.
\<close>

theorem file_extension_mapping:
  "map (\<lambda>(k, c). (k, get_file_extension c)) DUMPER_MAP =
     [(''postgres'', ''.sql''), (''mysql'', ''.sql''), (''mariadb'', ''.sql''), (''mssql'', ''.bak'')]"
  by (simp add: DUMPER_MAP_def)

text \<open>
  C8. \<open>upload_file\<close> on a path that does not exist raises \<open>FileNotFoundError\<close> at once: the
  storage object comes back as it was (no client was built), and the world differs only by
  the record of the call (no clock reading, no log line, no client, no transfer).
\<close>

theorem upload_missing_file:
  assumes "p \<notin> files w"
  shows "upload_file x s p f md w =
     (Inl (FileNotFoundError (''Arquivo n'' @ a_tilde @ ''o encontrado: '' @ p)), s,
      emit (UploadFileCall p f) w)"
  using assms by (simp add: upload_file_def emit_def Let_def)

theorem upload_missing_file_witness:
  "''/tmp/missing.sql'' \<notin> files w_0 \<and>
   upload_file x_ok s_r2 ''/tmp/missing.sql'' ''missing.sql'' [] w_0 =
     (Inl (FileNotFoundError (''Arquivo n'' @ a_tilde @ ''o encontrado: '' @ ''/tmp/missing.sql'')), s_r2,
      emit (UploadFileCall ''/tmp/missing.sql'' ''missing.sql'') w_0)"
proof -
  have h: "''/tmp/missing.sql'' \<notin> files w_0" by (simp add: w_0_def)
  show ?thesis using h upload_missing_file[OF h] by (intro conjI)
qed

text \<open>
  C9. A storage provider that either constructor returned has a non-empty destination
  folder: the configured one when it is a non-empty string, \<open>backups/\<close> otherwise. So path
  building takes its non-empty branch, \<open>upload_file\<close> leaves the folder as it is, and
  every key \<open>upload_file\<close> returns starts with the folder, stripped of trailing separators,
  and one separator.
\<close>

theorem destination_folder_never_empty:
  assumes "R2Storage_init ep ak sk b df = Inr s \<or> S3Storage_init ak sk b rg ep df = Inr s"
  shows "destination_folder s \<noteq> [] \<and>
     (\<not> truthy df \<longrightarrow> destination_folder s = ''backups/'') \<and>
     (truthy df \<longrightarrow> destination_folder s = fmt df) \<and>
     base_folder (destination_folder s) = rstrip_slash (destination_folder s) @ ''/'' \<and>
     destination_folder (fst (snd (upload_file x s p f m w))) = destination_folder s \<and>
     (\<forall>key. fst (upload_file x s p f m w) = Inr key \<longrightarrow>
        prefix (rstrip_slash (destination_folder s) @ ''/'') key)"
proof -
  have a: "destination_folder s = (if truthy df then fmt df else ''backups/'')"
    using assms
    by (auto simp add: R2Storage_init_def S3Storage_init_def StorageProvider_init_def split: if_splits)
  have ne: "destination_folder s \<noteq> []"
    unfolding a by (cases df) auto
  then have bf: "base_folder (destination_folder s) = rstrip_slash (destination_folder s) @ ''/''"
    by (simp add: base_folder_def)
  have "prefix (rstrip_slash (destination_folder s) @ ''/'') key"
    if "fst (upload_file x s p f m w) = Inr key" for key
    using upload_file_key[OF that] bf
    by (simp add: build_destination_path_def destination_path_def Let_def split_beta)
  with a ne bf show ?thesis by (simp add: upload_file_folder)
qed

theorem destination_folder_never_empty_witness:
  "R2Storage_init (Some ''https://r2.example'') (Some ''AK'') (Some ''SK'') (Some ''bkt'') None = Inr s_r2 \<and>
   \<not> truthy None \<and>
   destination_folder s_r2 \<noteq> [] \<and> destination_folder s_r2 = ''backups/'' \<and>
   fst (upload_file x_ok s_r2 tmp_0 ''backup_shop_20240309_023005.sql'' [] (w_0\<lparr>files := {tmp_0}\<rparr>)) =
     Inr ''backups/20240309/backup_shop_20240309_023005.sql'' \<and>
   prefix (rstrip_slash (destination_folder s_r2) @ ''/'')
     ''backups/20240309/backup_shop_20240309_023005.sql''"
proof -
  have h: "R2Storage_init (Some ''https://r2.example'') (Some ''AK'') (Some ''SK'') (Some ''bkt'') None = Inr s_r2"
    by (simp add: R2Storage_init_def StorageProvider_init_def s_r2_def)
  have k: "fst (upload_file x_ok s_r2 tmp_0 ''backup_shop_20240309_023005.sql'' [] (w_0\<lparr>files := {tmp_0}\<rparr>)) =
     Inr ''backups/20240309/backup_shop_20240309_023005.sql''"
    by code_simp
  have nt: "\<not> truthy None" by simp
  show ?thesis
    using h k nt destination_folder_never_empty[OF disjI1[OF h],
        of x_ok tmp_0 "''backup_shop_20240309_023005.sql''" "[]" "w_0\<lparr>files := {tmp_0}\<rparr>"]
    by blast
qed

text \<open>
  C10. \<open>dump\<close> of the Postgres variant launches \<open>pg_dump\<close> in an environment in which
  \<open>PGPASSWORD\<close> is the configured password, and the variable still holds it in the
  environment of the process when \<open>dump\<close> is over, whatever the exit status was.
\<close>

theorem postgres_dump_sets_pgpassword:
  assumes "cls d = PostgresDumper"
  shows "environ (snd (dump x d p w)) ''PGPASSWORD'' = Some (password d) \<and>
    new_events w (snd (dump x d p w)) =
      [Log INFO (dump_log PostgresDumper d p),
       Spawn (dump_command PostgresDumper d p) ((environ w)(''PGPASSWORD'' \<mapsto> password d))]"
  using assms by (simp add: dump_result new_events_def Let_def)

theorem postgres_dump_sets_pgpassword_witness:
  "cls d_pg = PostgresDumper \<and>
   environ (snd (dump x_dump_fails d_pg tmp_0 w_0)) ''PGPASSWORD'' = Some ''s3cr3t'' \<and>
   environ (snd (dump x_ok d_pg tmp_0 w_0)) ''PGPASSWORD'' = Some ''s3cr3t''"
proof -
  have h: "cls d_pg = PostgresDumper" by (simp add: d_pg_def)
  have pw: "password d_pg = ''s3cr3t''" by (simp add: d_pg_def)
  show ?thesis
    using h pw postgres_dump_sets_pgpassword[OF h, of x_dump_fails tmp_0 w_0]
      postgres_dump_sets_pgpassword[OF h, of x_ok tmp_0 w_0]
    by simp
qed

end
